theory Spec2Isabelle
  imports Main "HOL-Library.Sublist" "HOL-Library.AList"
begin

section \<open>Strings\<close>

text \<open>
  Python's \<open>str\<close> operations used by \<open>forecast_script.py\<close>. A string is a list of
  characters; \<open>s.startswith(p)\<close> is \<^const>\<open>prefix\<close>, \<open>p in s\<close> on strings is
  \<^const>\<open>sublist\<close> (a contiguous run), \<open>s[7:]\<close> is \<open>drop 7 s\<close>.
\<close>

definition startswith :: "string \<Rightarrow> string \<Rightarrow> bool" where
  "startswith s p = prefix p s"

definition isspace :: "char \<Rightarrow> bool" where
  \<comment> \<open>\<open>str.isspace\<close> on the code points below 256\<close>
  "isspace c = ((of_char c :: nat) \<in> {9, 10, 11, 12, 13, 28, 29, 30, 31, 32, 133, 160})"

definition strip :: "string \<Rightarrow> string" where
  "strip s = rev (dropWhile isspace (rev (dropWhile isspace s)))"

fun join :: "string \<Rightarrow> string list \<Rightarrow> string" where
  "join sep [] = []"
| "join sep [x] = x"
| "join sep (x # y # ys) = x @ sep @ join sep (y # ys)"

fun split_on :: "char \<Rightarrow> string \<Rightarrow> string list" where
  \<comment> \<open>\<open>s.split(c)\<close> for a one-character separator: empty pieces are kept\<close>
  "split_on c [] = [[]]"
| "split_on c (x # xs) =
     (if x = c then [] # split_on c xs
      else (case split_on c xs of [] \<Rightarrow> [[x]] | w # ws \<Rightarrow> (x # w) # ws))"

definition nl :: string where
  "nl = [CHR 0x0A]"

definition quote :: string where
  "quote = [CHR 0x27]"

section \<open>Forecast table names\<close>

text \<open>
  \<open>create_forecast_table\<close>, lines 121 to 125: the name the table is created under,
  and its short form for the log (\<open>split(".", 1)[-1]\<close>: what follows the first dot).
\<close>

definition create_forecast_table_name :: "string \<Rightarrow> string \<Rightarrow> string" where
  "create_forecast_table_name db_name table_name =
     (if startswith (strip table_name) ''bucket_''
      then db_name @ ''.bucket_forecast_'' @ drop 7 table_name
      else db_name @ ''.bucket_forecast_'' @ table_name)"

definition short_table_name :: "string \<Rightarrow> string" where
  "short_table_name forecast_table_name =
     (case dropWhile (\<lambda>c. c \<noteq> CHR ''.'') forecast_table_name of
        [] \<Rightarrow> forecast_table_name
      | _ # rest \<Rightarrow> rest)"

text \<open>
  \<open>forecast_table\<close>, line 156: its own \<open>forecast_table_name\<close>, the name the rows are
  inserted under.
\<close>

definition insert_table_name :: "string \<Rightarrow> string \<Rightarrow> string" where
  "insert_table_name db_name table_name = db_name @ ''.bucket_forecast_'' @ drop 7 table_name"

text \<open>The rule of the specification: one leading \<open>bucket_\<close> is removed, if there is one.\<close>

definition stem :: "string \<Rightarrow> string" where
  "stem table_name = (if prefix ''bucket_'' table_name then drop 7 table_name else table_name)"

section \<open>The database client, the forecasting library and the run's state\<close>

datatype error =
    SystemExit int
  | DatabaseError string
  | IndexError
  | ValueError
  | TypeError
  | ForecastingError string

text \<open>A value in a reply of the database: what \<open>result_set\<close> holds, row by row.\<close>

datatype 'v cell = CInt int | CFloat 'v | CStr string | CDate int | CNull

text \<open>
  The collaborators of the script, which it only calls:
  \<^item> \<open>connect_error\<close>: the exception of \<open>get_client\<close>, if it raises;
  \<^item> \<open>respond\<close>: \<open>client.query(q).result_set\<close>, or the exception it raises, as a function of
    the statements issued before and of the statement \<open>q\<close>;
  \<^item> \<open>fit\<close>, \<open>make_future_dataframe\<close>, \<open>predict\<close>: the methods of \<open>Prophet\<close>, on a series of
    dated values, a number of periods and a frame of dates (day numbers); a forecast row is
    \<open>(ds, yhat, yhat_lower, yhat_upper)\<close>;
  \<open>str_val\<close>, \<open>str_date\<close>: Python's \<open>str\<close> on a forecast value and on a date;
  \<^item> \<open>duration\<close>: \<open>time.time() - start_time\<close> when the summary is written.
  Floating-point values are kept abstract (the type \<open>'v\<close>): the script only moves them.
\<close>

record ('m, 'v) world =
  connect_error :: "string option"
  respond :: "string list \<Rightarrow> string \<Rightarrow> error + 'v cell list list"
  fit :: "(int \<times> 'v cell) list \<Rightarrow> error + 'm"
  make_future_dataframe :: "'m \<Rightarrow> int \<Rightarrow> error + int list"
  predict :: "'m \<Rightarrow> int list \<Rightarrow> error + (int \<times> 'v \<times> 'v \<times> 'v) list"
  str_val :: "'v \<Rightarrow> string"
  str_date :: "int \<Rightarrow> string"
  duration :: "'v"

datatype level = INFO | WARNING | ERROR

text \<open>
  One constructor for each \<open>logging\<close> call of the script, carrying the values its message
  interpolates. (\<open>logging.debug\<close> in \<open>get_tables\<close> is below the configured level.)
\<close>

datatype 'v event =
    Connected
  | ConnectFailed string
  | SkipColumn string string
  | Dropping string
  | Created string
  | Recreated string
  | MissingData string
  | ForecastFailed string string error
  | Inserted string
  | Starting string string
  | Finished 'v
  | TableInfo int int int int int
  | Rule

text \<open>
  The module's global lists, the statements sent to the database and the log. \<open>fitted\<close>
  records each call of \<open>model.fit\<close> (table and column); the script keeps no such list.
\<close>

record 'v state =
  queries :: "string list"
  logs :: "(level \<times> 'v event) list"
  fitted :: "(string \<times> string) list"
  successful_tables :: "string list"
  new_tables :: "string list"
  updated_tables :: "string list"
  failed_tables :: "string list"
  skipped_tables :: "string list"

definition init_state :: "'v state" where
  "init_state = \<lparr>queries = [], logs = [], fitted = [], successful_tables = [], new_tables = [],
     updated_tables = [], failed_tables = [], skipped_tables = []\<rparr>"

definition logging :: "level \<Rightarrow> 'v event \<Rightarrow> 'v state \<Rightarrow> 'v state" where
  "logging l e st = st\<lparr>logs := logs st @ [(l, e)]\<rparr>"

definition query :: "('m, 'v) world \<Rightarrow> string \<Rightarrow> 'v state \<Rightarrow> error + ('v cell list list \<times> 'v state)" where
  "query W q st =
     (case respond W (queries st) q of
        Inl e \<Rightarrow> Inl e
      | Inr result_set \<Rightarrow> Inr (result_set, st\<lparr>queries := queries st @ [q]\<rparr>))"

section \<open>Schema inspection\<close>

definition SKIP_DATA_TYPES :: "string list" where
  "SKIP_DATA_TYPES = [''String'', ''Text'', ''Enum'', ''Boolean'', ''Blob'', ''Binary'',
     ''Array'', ''JSON'', ''UUID'']"

text \<open>
  \<open>get_tables\<close>: the first value of every row of \<open>SHOW TABLES\<close>. A row without a value
  raises \<open>IndexError\<close>. The catalog names tables by text; a value that is not text is given
  \<open>TypeError\<close> here (the script would fail on it at \<open>startswith\<close>).
\<close>

fun first_values :: "'v cell list list \<Rightarrow> error + string list" where
  "first_values [] = Inr []"
| "first_values ([] # rows) = Inl IndexError"
| "first_values ((CStr t # _) # rows) =
     (case first_values rows of Inl e \<Rightarrow> Inl e | Inr ts \<Rightarrow> Inr (t # ts))"
| "first_values ((_ # _) # rows) = Inl TypeError"

definition get_tables :: "('m, 'v) world \<Rightarrow> string \<Rightarrow> 'v state \<Rightarrow> error + (string list \<times> 'v state)" where
  "get_tables W db_name st =
     (case query W (''SHOW TABLES FROM '' @ db_name) st of
        Inl e \<Rightarrow> Inl e
      | Inr (tables, st') \<Rightarrow>
          (case first_values tables of Inl e \<Rightarrow> Inl e | Inr ts \<Rightarrow> Inr (ts, st')))"

text \<open>
  The loop of \<open>get_columns_and_types\<close> (lines 109 to 117) over the rows of
  \<open>DESCRIBE TABLE\<close>, with the two lists it appends to and the state (for the log). A row
  shorter than two values fails to unpack (\<open>ValueError\<close>). The catalog gives name and type
  as text; a row that does not is given \<open>TypeError\<close> here, unless it is the row of
  \<open>date\<close>, whose type the script never reads.
\<close>

definition skipped_type :: "string \<Rightarrow> bool" where
  \<comment> \<open>\<open>any(skip_type in type_ for skip_type in SKIP_DATA_TYPES)\<close>\<close>
  "skipped_type ty = list_ex (\<lambda>skip_type. sublist skip_type ty) SKIP_DATA_TYPES"

fun columns_loop ::
  "'v cell list list \<Rightarrow> string list \<Rightarrow> string list \<Rightarrow> 'v state
    \<Rightarrow> error + ((string list \<times> string list) \<times> 'v state)" where
  "columns_loop [] columns types st = Inr ((columns, types), st)"
| "columns_loop ((CStr column # CStr ty # rest) # rows) columns types st =
     (if column \<noteq> ''date'' \<and> \<not> skipped_type ty
      then columns_loop rows (columns @ [column]) (types @ [ty]) st
      else if column \<noteq> ''date''
      then columns_loop rows columns types (logging INFO (SkipColumn column ty) st)
      else columns_loop rows columns types st)"
| "columns_loop ((CStr column # _ # rest) # rows) columns types st =
     (if column \<noteq> ''date'' then Inl TypeError else columns_loop rows columns types st)"
| "columns_loop ((_ # _ # rest) # rows) columns types st = Inl TypeError"
| "columns_loop (_ # rows) columns types st = Inl ValueError"

definition get_columns_and_types ::
  "('m, 'v) world \<Rightarrow> string \<Rightarrow> string \<Rightarrow> 'v state
    \<Rightarrow> error + ((string list \<times> string list) \<times> 'v state)" where
  "get_columns_and_types W db_name table_name st =
     (case query W (''DESCRIBE TABLE '' @ db_name @ ''.'' @ table_name) st of
        Inl e \<Rightarrow> Inl e
      | Inr (columns_info, st') \<Rightarrow> columns_loop columns_info [] [] st')"

section \<open>The forecast table\<close>

text \<open>\<open>create_forecast_table\<close>, lines 120 to 151.\<close>

definition columns_definitions :: "string list \<Rightarrow> string list \<Rightarrow> string" where
  "columns_definitions columns types =
     join '', '' (map (\<lambda>(col, typ). col @ '' '' @ typ @ '', '' @ col @ ''_min '' @ typ @ '', ''
                                       @ col @ ''_max '' @ typ) (zip columns types))"

definition query_create :: "string \<Rightarrow> string list \<Rightarrow> string list \<Rightarrow> string" where
  "query_create forecast_table_name columns types =
     nl @ ''    CREATE TABLE '' @ forecast_table_name @ '' ('' @
     nl @ ''        date Date,'' @
     nl @ ''        '' @ columns_definitions columns types @
     nl @ ''    ) ENGINE = MergeTree()'' @
     nl @ ''    ORDER BY date;'' @
     nl @ ''    ''"

definition exists_flag :: "'v cell list list \<Rightarrow> error + bool" where
  \<comment> \<open>\<open>result_set[0][0] == 1\<close>; the database answers \<open>EXISTS\<close> with an integer\<close>
  "exists_flag result_set =
     (case result_set of
        [] \<Rightarrow> Inl IndexError
      | [] # _ \<Rightarrow> Inl IndexError
      | (c # _) # _ \<Rightarrow> Inr (c = CInt 1))"

definition create_forecast_table ::
  "('m, 'v) world \<Rightarrow> string \<Rightarrow> string \<Rightarrow> string list \<Rightarrow> string list \<Rightarrow> 'v state
    \<Rightarrow> error + 'v state" where
  "create_forecast_table W db_name table_name columns types st =
     (let forecast_table_name = create_forecast_table_name db_name table_name;
          short = short_table_name forecast_table_name
      in case query W (''EXISTS TABLE '' @ forecast_table_name) st of
           Inl e \<Rightarrow> Inl e
         | Inr (result_set, st1) \<Rightarrow>
        (case exists_flag result_set of
           Inl e \<Rightarrow> Inl e
         | Inr exists \<Rightarrow>
        (case (if exists
               then (case query W (''DROP TABLE '' @ forecast_table_name)
                            (logging INFO (Dropping short) st1) of
                       Inl e \<Rightarrow> Inl e
                     | Inr (_, st2) \<Rightarrow> Inr st2)
               else Inr st1) of
           Inl e \<Rightarrow> Inl e
         | Inr st2 \<Rightarrow>
        (case query W (query_create forecast_table_name columns types) st2 of
           Inl e \<Rightarrow> Inl e
         | Inr (_, st3) \<Rightarrow>
             if \<not> exists
             then Inr ((logging INFO (Created short) st3)
                        \<lparr>new_tables := new_tables st3 @ [table_name]\<rparr>)
             else Inr ((logging INFO (Recreated short) st3)
                        \<lparr>updated_tables := updated_tables st3 @ [table_name]\<rparr>)))))"

section \<open>Forecasting a table\<close>

text \<open>
  \<open>forecast_data\<close> is a dictionary from a date to a dictionary of that date's values, both
  in insertion order: association lists, updated with \<^const>\<open>AList.update\<close> (an existing
  key keeps its place, a new key goes to the end). A row holds its own date under
  \<open>date\<close> and forecast values under the names of columns.
\<close>

datatype 'v entry = Date int | Value 'v

type_synonym 'v row = "(string \<times> 'v entry) list"
type_synonym 'v forecast_data = "(int \<times> 'v row) list"

text \<open>The loop over \<open>export_data.iterrows()\<close>, lines 188 to 194.\<close>

fun collect_rows ::
  "string \<Rightarrow> (int \<times> 'v \<times> 'v \<times> 'v) list \<Rightarrow> 'v forecast_data \<Rightarrow> 'v forecast_data" where
  "collect_rows col [] forecast_data = forecast_data"
| "collect_rows col ((ds, yhat, yhat_lower, yhat_upper) # export_data) forecast_data =
     (let row0 = (case map_of forecast_data ds of
                    None \<Rightarrow> [(''date'', Date ds)]
                  | Some r \<Rightarrow> r);
          row1 = AList.update col (Value yhat) row0;
          row2 = AList.update (col @ ''_min'') (Value yhat_lower) row1;
          row3 = AList.update (col @ ''_max'') (Value yhat_upper) row2
      in collect_rows col export_data (AList.update ds row3 forecast_data))"

text \<open>
  The frame of the source rows (line 158): empty for an empty reply; otherwise every row
  must have one value for \<open>date\<close> and one for each column. Line 165 reads the dates: the
  \<open>date\<close> column of a source table holds dates, anything else is given \<open>ValueError\<close>
  here.
\<close>

definition data_frame :: "string list \<Rightarrow> 'v cell list list \<Rightarrow> error + 'v cell list list" where
  "data_frame columns result_set =
     (if list_all (\<lambda>r. length r = Suc (length columns)) result_set
      then Inr result_set else Inl ValueError)"

fun to_datetime :: "'v cell list list \<Rightarrow> error + (int \<times> 'v cell list) list" where
  "to_datetime [] = Inr []"
| "to_datetime ((CDate d # vals) # rows) =
     (case to_datetime rows of Inl e \<Rightarrow> Inl e | Inr ds \<Rightarrow> Inr ((d, vals) # ds))"
| "to_datetime (_ # rows) = Inl ValueError"

fun max_date :: "int list \<Rightarrow> int" where
  \<comment> \<open>\<open>data['date'].max()\<close>, of a frame that is not empty\<close>
  "max_date [] = 0"
| "max_date (d # ds) = fold max ds d"

definition series :: "string list \<Rightarrow> (int \<times> 'v cell list) list \<Rightarrow> string \<Rightarrow> (int \<times> 'v cell) list" where
  \<comment> \<open>\<open>data[["date", col]]\<close>\<close>
  "series columns data col =
     map (\<lambda>(d, vals). (d, case map_of (zip columns vals) col of Some c \<Rightarrow> c | None \<Rightarrow> CNull)) data"

text \<open>The body of the \<open>try\<close> up to \<open>predict\<close>, lines 171 to 177.\<close>

definition forecast_column ::
  "('m, 'v) world \<Rightarrow> int \<Rightarrow> bool \<Rightarrow> int \<Rightarrow> (int \<times> 'v cell) list
    \<Rightarrow> error + (int \<times> 'v \<times> 'v \<times> 'v) list" where
  "forecast_column W interval only_future last_known_date df =
     (case fit W df of
        Inl e \<Rightarrow> Inl e
      | Inr model \<Rightarrow>
     (case make_future_dataframe W model interval of
        Inl e \<Rightarrow> Inl e
      | Inr future \<Rightarrow>
          predict W model
            (if only_future then filter (\<lambda>ds. ds > last_known_date) future else future)))"

text \<open>The loop over the columns, lines 169 to 198, with its \<open>except\<close> branch.\<close>

fun forecast_columns ::
  "('m, 'v) world \<Rightarrow> string \<Rightarrow> int \<Rightarrow> bool \<Rightarrow> string list \<Rightarrow> (int \<times> 'v cell list) list \<Rightarrow> int
    \<Rightarrow> string list \<Rightarrow> 'v forecast_data \<Rightarrow> 'v state \<Rightarrow> 'v forecast_data \<times> 'v state" where
  "forecast_columns W table_name interval only_future columns data last_known_date []
     forecast_data st = (forecast_data, st)"
| "forecast_columns W table_name interval only_future columns data last_known_date (col # cols)
     forecast_data st =
     (let st1 = st\<lparr>fitted := fitted st @ [(table_name, col)]\<rparr>
      in case forecast_column W interval only_future last_known_date (series columns data col) of
           Inr forecast \<Rightarrow>
             forecast_columns W table_name interval only_future columns data last_known_date cols
               (collect_rows col forecast forecast_data) st1
         | Inl e \<Rightarrow>
             forecast_columns W table_name interval only_future columns data last_known_date cols
               forecast_data
               (logging ERROR (ForecastFailed col table_name e)
                  (st1\<lparr>failed_tables := failed_tables st1 @ [table_name]\<rparr>)))"

text \<open>The insert statement, lines 203 to 212.\<close>

definition query_insert :: "string \<Rightarrow> string list \<Rightarrow> string" where
  "query_insert forecast_table_name columns =
     nl @ ''        INSERT INTO '' @ forecast_table_name @ '' (date, '' @ join '', '' columns
        @ '', '' @ join '', '' (map (\<lambda>col. col @ ''_min'') columns)
        @ '', '' @ join '', '' (map (\<lambda>col. col @ ''_max'') columns) @ '')'' @
     nl @ ''        VALUES'' @
     nl @ ''        ''"

definition str_entry :: "('m, 'v) world \<Rightarrow> 'v entry \<Rightarrow> string" where
  "str_entry W e = (case e of Date d \<Rightarrow> str_date W d | Value v \<Rightarrow> str_val W v)"

definition field :: "('m, 'v) world \<Rightarrow> 'v row \<Rightarrow> string \<Rightarrow> string" where
  \<comment> \<open>\<open>str(data[key]) if key in data else 'NULL'\<close>\<close>
  "field W data key = (case map_of data key of Some e \<Rightarrow> str_entry W e | None \<Rightarrow> ''NULL'')"

definition row_values :: "('m, 'v) world \<Rightarrow> string list \<Rightarrow> 'v row \<Rightarrow> string" where
  \<comment> \<open>every row is made with its \<open>date\<close>, so \<open>data['date']\<close> is there\<close>
  "row_values W columns data =
     ''('' @ quote @ (case map_of data ''date'' of Some e \<Rightarrow> str_entry W e | None \<Rightarrow> [])
        @ quote @ '', '' @ join '', '' (map (\<lambda>col. field W data col) columns)
        @ '', '' @ join '', '' (map (\<lambda>col. field W data (col @ ''_min'')) columns)
        @ '', '' @ join '', '' (map (\<lambda>col. field W data (col @ ''_max'')) columns) @ '')''"

definition query_values :: "('m, 'v) world \<Rightarrow> string list \<Rightarrow> 'v forecast_data \<Rightarrow> string" where
  "query_values W columns forecast_data =
     join '', '' (map (\<lambda>data. row_values W columns data) (map snd forecast_data))"

text \<open>Lines 201 to 215: the insert, when there is a row.\<close>

definition insert_forecast_data ::
  "('m, 'v) world \<Rightarrow> string \<Rightarrow> string list \<Rightarrow> 'v forecast_data \<Rightarrow> 'v state \<Rightarrow> error + 'v state" where
  "insert_forecast_data W forecast_table_name columns forecast_data st =
     (if forecast_data \<noteq> []
      then (case query W (query_insert forecast_table_name columns
                            @ query_values W columns forecast_data) st of
              Inl e \<Rightarrow> Inl e
            | Inr (_, st') \<Rightarrow> Inr (logging INFO (Inserted forecast_table_name) st'))
      else Inr st)"

definition query_select :: "string \<Rightarrow> string \<Rightarrow> string list \<Rightarrow> string" where
  "query_select db_name table_name columns =
     ''SELECT date, '' @ join '', '' columns @ '' FROM '' @ db_name @ ''.'' @ table_name
       @ '' ORDER BY date''"

definition forecast_table ::
  "('m, 'v) world \<Rightarrow> string \<Rightarrow> string \<Rightarrow> int \<Rightarrow> bool \<Rightarrow> 'v state \<Rightarrow> error + 'v state" where
  "forecast_table W db_name table_name interval only_future st =
     (case get_columns_and_types W db_name table_name st of
        Inl e \<Rightarrow> Inl e
      | Inr ((columns, types), st1) \<Rightarrow>
     (case query W (query_select db_name table_name columns) st1 of
        Inl e \<Rightarrow> Inl e
      | Inr (result_set, st2) \<Rightarrow>
     (case data_frame columns result_set of
        Inl e \<Rightarrow> Inl e
      | Inr frame \<Rightarrow>
          if frame = []
          then Inr ((logging WARNING (MissingData table_name) st2)
                     \<lparr>failed_tables := failed_tables st2 @ [table_name]\<rparr>)
          else
     (case to_datetime frame of
        Inl e \<Rightarrow> Inl e
      | Inr data \<Rightarrow>
     (case forecast_columns W table_name interval only_future columns data
             (max_date (map fst data)) columns [] st2 of
        (forecast_data, st3) \<Rightarrow>
     (case insert_forecast_data W (insert_table_name db_name table_name) columns
             forecast_data st3 of
        Inl e \<Rightarrow> Inl e
      | Inr st4 \<Rightarrow>
          Inr (st4\<lparr>successful_tables := successful_tables st4 @ [table_name]\<rparr>)))))))"

section \<open>The run\<close>

text \<open>The argument \<open>specific_tables\<close> of \<open>main\<close>: \<open>None\<close>, a string, or a list.\<close>

datatype specific = NoTables | TablesStr string | TablesList "string list"

fun truthy :: "specific \<Rightarrow> bool" where
  "truthy NoTables = False"
| "truthy (TablesStr s) = (s \<noteq> [])"
| "truthy (TablesList l) = (l \<noteq> [])"

fun table_in :: "string \<Rightarrow> specific \<Rightarrow> bool" where
  \<comment> \<open>\<open>table in specific_tables\<close>, evaluated only when \<open>specific_tables\<close> is truthy\<close>
  "table_in table NoTables = False"
| "table_in table (TablesStr s) = sublist table s"
| "table_in table (TablesList l) = (table \<in> set l)"

definition get_clickhouse_connection :: "('m, 'v) world \<Rightarrow> 'v state \<Rightarrow> error + 'v state" where
  "get_clickhouse_connection W st =
     (case connect_error W of
        None \<Rightarrow> Inr (logging INFO Connected st)
      | Some e \<Rightarrow> Inl (SystemExit 1))"

text \<open>The body of the loop of \<open>main\<close>, lines 230 to 242, for one table.\<close>

definition process_table ::
  "('m, 'v) world \<Rightarrow> string \<Rightarrow> int \<Rightarrow> specific \<Rightarrow> bool \<Rightarrow> string \<Rightarrow> 'v state \<Rightarrow> error + 'v state" where
  "process_table W db_name interval specific_tables only_future table st =
     (if truthy specific_tables \<and> \<not> table_in table specific_tables then Inr st
      else if startswith table ''bucket_forecast_''
      then Inr (st\<lparr>skipped_tables := skipped_tables st @ [table]\<rparr>)
      else
     (case get_columns_and_types W db_name table (logging INFO (Starting db_name table) st) of
        Inl e \<Rightarrow> Inl e
      | Inr ((columns, types), st1) \<Rightarrow>
     (case create_forecast_table W db_name table columns types st1 of
        Inl e \<Rightarrow> Inl e
      | Inr st2 \<Rightarrow> forecast_table W db_name table interval only_future st2)))"

fun process_tables ::
  "('m, 'v) world \<Rightarrow> string \<Rightarrow> int \<Rightarrow> specific \<Rightarrow> bool \<Rightarrow> string list \<Rightarrow> 'v state \<Rightarrow> error + 'v state" where
  "process_tables W db_name interval specific_tables only_future [] st = Inr st"
| "process_tables W db_name interval specific_tables only_future (table # tables) st =
     (case process_table W db_name interval specific_tables only_future table st of
        Inl e \<Rightarrow> Inl e
      | Inr st' \<Rightarrow> process_tables W db_name interval specific_tables only_future tables st')"

definition candidate_tables ::
  "('m, 'v) world \<Rightarrow> string \<Rightarrow> specific \<Rightarrow> 'v state \<Rightarrow> error + (string list \<times> 'v state)" where
  \<comment> \<open>lines 223 to 226\<close>
  "candidate_tables W db_name specific_tables st =
     (case specific_tables of
        TablesStr s \<Rightarrow> if s \<noteq> [] then Inr (split_on CHR '','' s, st) else get_tables W db_name st
      | _ \<Rightarrow> get_tables W db_name st)"

definition summary :: "('m, 'v) world \<Rightarrow> 'v state \<Rightarrow> 'v state" where
  \<comment> \<open>lines 244 to 247\<close>
  "summary W st =
     logging INFO Rule
       (logging INFO
          (TableInfo (int (length (successful_tables st)) + int (length (skipped_tables st)))
             (int (length (new_tables st)))
             (int (length (updated_tables st)))
             (int (length (skipped_tables st)) - int (length (failed_tables st)))
             (int (length (failed_tables st))))
          (logging INFO (Finished (duration W)) st))"

definition main ::
  "('m, 'v) world \<Rightarrow> string \<Rightarrow> int \<Rightarrow> specific \<Rightarrow> bool \<Rightarrow> 'v state \<Rightarrow> error + 'v state" where
  "main W db_name interval specific_tables only_future st =
     (case get_clickhouse_connection W st of
        Inl e \<Rightarrow> Inl e
      | Inr st0 \<Rightarrow>
     (case candidate_tables W db_name specific_tables st0 of
        Inl e \<Rightarrow> Inl e
      | Inr (tables, st1) \<Rightarrow>
     (case process_tables W db_name interval specific_tables only_future tables st1 of
        Inl e \<Rightarrow> Inl e
      | Inr st2 \<Rightarrow> Inr (summary W st2))))"

section \<open>The statements in the words of the specification\<close>

text \<open>
  The schema of a forecast table in the words of the specification: \<open>date\<close> of type
  \<open>Date\<close>, then for each pair of column and type the column, its \<open>_min\<close> and its
  \<open>_max\<close>, all of that type; and the \<open>CREATE TABLE\<close> statement of a schema.
\<close>
definition forecast_schema :: "string list \<Rightarrow> string list \<Rightarrow> (string \<times> string) list" where
  "forecast_schema columns types =
     (''date'', ''Date'') #
     concat (map (\<lambda>(col, typ). [(col, typ), (col @ ''_min'', typ), (col @ ''_max'', typ)])
               (zip columns types))"

definition create_statement :: "string \<Rightarrow> (string \<times> string) list \<Rightarrow> string" where
  "create_statement name schema =
     nl @ ''    CREATE TABLE '' @ name @ '' ('' @
     nl @ ''        '' @
     (case schema of
        [] \<Rightarrow> []
      | (c, t) # rest \<Rightarrow>
          c @ '' '' @ t @ '','' @ nl @ ''        '' @ join '', '' (map (\<lambda>(c, t). c @ '' '' @ t) rest)) @
     nl @ ''    ) ENGINE = MergeTree()'' @
     nl @ ''    ORDER BY date;'' @
     nl @ ''    ''"

text \<open>
  The keys a column writes into a row; a collection of rows carries a column's forecast
  when every date of the forecast has a row with values forecast for that date; it lacks a
  column when no row has a value under one of the column's keys.
\<close>
definition forecast_keys :: "string \<Rightarrow> string list" where
  "forecast_keys col = [col, col @ ''_min'', col @ ''_max'']"



text \<open>
  The insert in the words of the specification: the column list is \<open>date\<close>, every
  column, every \<open>_min\<close>, every \<open>_max\<close>; a row gives one field for each of them, \<open>NULL\<close>
  where it has no value; the statement lists the columns and one tuple for each row.
\<close>
definition insert_columns :: "string list \<Rightarrow> string list" where
  "insert_columns columns =
     ''date'' # columns @ map (\<lambda>col. col @ ''_min'') columns @ map (\<lambda>col. col @ ''_max'') columns"

definition insert_fields :: "('m, 'v) world \<Rightarrow> string list \<Rightarrow> 'v row \<Rightarrow> string list" where
  "insert_fields W columns data =
     (quote @ (case map_of data ''date'' of Some e \<Rightarrow> str_entry W e | None \<Rightarrow> []) @ quote)
     # map (\<lambda>key. case map_of data key of Some e \<Rightarrow> str_entry W e | None \<Rightarrow> ''NULL'')
         (tl (insert_columns columns))"

definition insert_statement :: "string \<Rightarrow> string list \<Rightarrow> string list list \<Rightarrow> string" where
  "insert_statement name columns rows =
     nl @ ''        INSERT INTO '' @ name @ '' ('' @ join '', '' columns @ '')'' @
     nl @ ''        VALUES'' @
     nl @ ''        '' @ join '', '' (map (\<lambda>fields. ''('' @ join '', '' fields @ '')'') rows)"

section \<open>Worlds for concrete runs\<close>

text \<open>
  A small world to run the script in: a catalog of two tables, source tables with the
  columns \<open>date\<close>, \<open>a\<close>, \<open>b\<close> and \<open>note\<close>, where \<open>b\<close> holds no value, and a
  forecasting library that refuses a series without values, extends the dates by
  \<open>periods\<close> days and predicts ten times the day number, give or take one.
\<close>
fun digits :: "nat \<Rightarrow> string" where
  "digits n = (if n < 10 then [''0123456789'' ! n]
               else digits (n div 10) @ [''0123456789'' ! (n mod 10)])"

definition str_int :: "int \<Rightarrow> string" where
  "str_int i = (if i < 0 then ''-'' @ digits (nat (- i)) else digits (nat i))"

definition demo_respond :: "string list \<Rightarrow> string \<Rightarrow> error + int cell list list" where
  "demo_respond history q =
     (if prefix ''SHOW TABLES'' q
      then Inr [[CStr ''bucket_sales''], [CStr ''bucket_forecast_sales'']]
      else if prefix ''DESCRIBE'' q
      then Inr [[CStr ''date'', CStr ''Date'', CStr ''''],
                [CStr ''a'', CStr ''Float64'', CStr ''''],
                [CStr ''b'', CStr ''Nullable(Float64)'', CStr ''''],
                [CStr ''note'', CStr ''String'', CStr '''']]
      else if prefix ''EXISTS'' q
      then Inr [[CInt (if ''DROP TABLE '' @ drop 13 q \<in> set history then 0 else 1)]]
      else if prefix ''SELECT'' q
      then (if sublist ''bucket_empty'' q then Inr []
            else if sublist ''bucket_nulls'' q
            then Inr [[CDate 1, CNull, CNull], [CDate 2, CNull, CNull]]
            else Inr [[CDate 1, CFloat 10, CNull], [CDate 2, CFloat 20, CNull]])
      else Inr [])"

definition demo_world :: "(int list, int) world" where
  "demo_world =
     \<lparr>connect_error = None,
      respond = demo_respond,
      fit = (\<lambda>df. if list_all (\<lambda>(ds, y). y = CNull) df
                   then Inl (ForecastingError ''Dataframe has less than 2 non-NaN rows.'')
                   else Inr (map fst df)),
      make_future_dataframe =
        (\<lambda>history periods. Inr (history @ [max_date history + 1 .. max_date history + periods])),
      predict = (\<lambda>history future.
                   if future = [] then Inl (ForecastingError ''Dataframe has no rows.'')
                   else Inr (map (\<lambda>ds. (ds, 10 * ds, 10 * ds - 1, 10 * ds + 1)) future)),
      str_val = str_int,
      str_date = (\<lambda>d. ''2024-01-0'' @ str_int d),
      duration = 0\<rparr>"



section \<open>Properties\<close>

lemma join_append:
  "xs \<noteq> [] \<Longrightarrow> ys \<noteq> [] \<Longrightarrow> join sep (xs @ ys) = join sep xs @ sep @ join sep ys"
proof (induction sep xs rule: join.induct)
  case (2 sep x)
  then show ?case by (cases ys) auto
qed auto

lemma join_concat_map:
  "(\<And>x. x \<in> set xs \<Longrightarrow> f x \<noteq> []) \<Longrightarrow>
     join sep (map (\<lambda>x. join sep (f x)) xs) = join sep (concat (map f xs))"
proof (induction xs)
  case (Cons x xs)
  show ?case
  proof (cases xs)
    case Nil
    then show ?thesis by simp
  next
    case (Cons y ys)
    have ne: "concat (map f xs) \<noteq> []" using Cons Cons.prems by auto
    have "join sep (map (\<lambda>x. join sep (f x)) (x # xs))
            = join sep (f x) @ sep @ join sep (map (\<lambda>x. join sep (f x)) xs)"
      using Cons by simp
    also have "\<dots> = join sep (f x) @ sep @ join sep (concat (map f xs))"
      using Cons.IH Cons.prems by simp
    also have "\<dots> = join sep (f x @ concat (map f xs))"
      using join_append[of "f x" "concat (map f xs)" sep] ne Cons.prems by simp
    finally show ?thesis by simp
  qed
qed simp

lemma columns_definitions_schema:
  "columns_definitions columns types =
     join '', '' (map (\<lambda>(c, t). c @ '' '' @ t)
       (concat (map (\<lambda>(col, typ). [(col, typ), (col @ ''_min'', typ), (col @ ''_max'', typ)])
                  (zip columns types))))"
proof -
  let ?f = "\<lambda>(col, typ). [col @ '' '' @ typ, col @ ''_min '' @ typ, col @ ''_max '' @ typ]"
  have "columns_definitions columns types = join '', '' (map (\<lambda>x. join '', '' (?f x)) (zip columns types))"
    unfolding columns_definitions_def by (rule arg_cong[where f="join '', ''"]) (auto simp: fun_eq_iff)
  also have "\<dots> = join '', '' (concat (map ?f (zip columns types)))"
    by (rule join_concat_map) auto
  also have "concat (map ?f (zip columns types)) = map (\<lambda>(c, t). c @ '' '' @ t)
       (concat (map (\<lambda>(col, typ). [(col, typ), (col @ ''_min'', typ), (col @ ''_max'', typ)])
                  (zip columns types)))"
  proof -
    have "concat (map ?f zs) = map (\<lambda>(c, t). c @ '' '' @ t)
       (concat (map (\<lambda>(col, typ). [(col, typ), (col @ ''_min'', typ), (col @ ''_max'', typ)]) zs))" for zs
      by (induction zs) auto
    then show ?thesis .
  qed
  finally show ?thesis .
qed

lemma query_create_schema:
  "query_create name columns types = create_statement name (forecast_schema columns types)"
  by (simp add: query_create_def create_statement_def forecast_schema_def columns_definitions_schema)

lemma query_Inr:
  "respond W (queries st) q = Inr result_set \<Longrightarrow>
     query W q st = Inr (result_set, st\<lparr>queries := queries st @ [q]\<rparr>)"
  by (simp add: query_def)

lemma query_Inl: "respond W (queries st) q = Inl e \<Longrightarrow> query W q st = Inl e"
  by (simp add: query_def)

text \<open>
  Claim C6. \<open>create_forecast_table\<close> first asks whether the forecast table exists and drops
  it if the answer is 1; then it creates it, and the statement it sends is the
  \<open>CREATE TABLE\<close> of the schema \<open>date Date\<close> followed, for each pair of column and type in
  order, by the column, its \<open>_min\<close> and its \<open>_max\<close>, all three of the column's type.
  The source table is appended to \<open>updated_tables\<close> exactly when the table existed and to
  \<open>new_tables\<close> exactly when it did not; the other lists are left alone. The database is
  assumed to accept the statements.
\<close>
theorem create_forecast_table_schema:
  fixes W :: "('m, 'v) world" and st :: "'v state" and db_name table_name :: string
    and c :: "'v cell"
  defines "name \<equiv> create_forecast_table_name db_name table_name"
  defines "existed \<equiv> (c = CInt 1)"
  defines "before_create \<equiv> queries st @ [''EXISTS TABLE '' @ name]
             @ (if existed then [''DROP TABLE '' @ name] else [])"
  assumes exists_reply: "respond W (queries st) (''EXISTS TABLE '' @ name) = Inr ((c # r) # rs)"
    and drop_reply: "existed \<Longrightarrow>
           respond W (queries st @ [''EXISTS TABLE '' @ name]) (''DROP TABLE '' @ name) = Inr dropped"
    and create_reply: "respond W before_create (query_create name columns types) = Inr created"
  shows "\<exists>st'. create_forecast_table W db_name table_name columns types st = Inr st'
           \<and> queries st' = before_create @ [create_statement name (forecast_schema columns types)]
           \<and> updated_tables st' = updated_tables st @ (if existed then [table_name] else [])
           \<and> new_tables st' = new_tables st @ (if existed then [] else [table_name])
           \<and> successful_tables st' = successful_tables st
           \<and> failed_tables st' = failed_tables st
           \<and> skipped_tables st' = skipped_tables st"
proof (cases existed)
  case True
  then have c: "c = CInt 1" by (simp add: existed_def)
  show ?thesis
    using exists_reply drop_reply[OF True] create_reply True
    unfolding create_forecast_table_def before_create_def name_def[symmetric]
    by (simp add: Let_def query_def exists_flag_def logging_def c query_create_schema)
next
  case False
  then have c: "c \<noteq> CInt 1" by (simp add: existed_def)
  show ?thesis
    using exists_reply create_reply False
    unfolding create_forecast_table_def before_create_def name_def[symmetric]
    by (simp add: Let_def query_def exists_flag_def logging_def c query_create_schema)
qed

lemma columns_loop_wf:
  "columns_loop (map (\<lambda>(c, t, rest). CStr c # CStr t # rest) info) columns types st =
     Inr ((columns @ map fst (filter (\<lambda>(c, t). c \<noteq> ''date'' \<and> \<not> skipped_type t) (map (\<lambda>(c, t, rest). (c, t)) info)),
           types @ map snd (filter (\<lambda>(c, t). c \<noteq> ''date'' \<and> \<not> skipped_type t) (map (\<lambda>(c, t, rest). (c, t)) info))),
          st\<lparr>logs := logs st @ map (\<lambda>(c, t). (INFO, SkipColumn c t))
               (filter (\<lambda>(c, t). c \<noteq> ''date'' \<and> skipped_type t) (map (\<lambda>(c, t, rest). (c, t)) info))\<rparr>)"
  by (induction info arbitrary: columns types st) (auto simp: logging_def)

lemma skipped_type_iff:
  "skipped_type ty \<longleftrightarrow>
     (\<exists>skip \<in> {''String'', ''Text'', ''Enum'', ''Boolean'', ''Blob'', ''Binary'', ''Array'', ''JSON'', ''UUID''}.
        sublist skip ty)"
  by (simp add: skipped_type_def SKIP_DATA_TYPES_def)

lemma columns_loop_state:
  "columns_loop rows columns types st = Inr ((columns', types'), st') \<Longrightarrow>
     queries st' = queries st \<and> fitted st' = fitted st
     \<and> successful_tables st' = successful_tables st \<and> new_tables st' = new_tables st
     \<and> updated_tables st' = updated_tables st \<and> failed_tables st' = failed_tables st
     \<and> skipped_tables st' = skipped_tables st"
  by (induction rows columns types st rule: columns_loop.induct)
     (auto simp: logging_def split: if_splits)

lemma columns_loop_columns:
  "columns_loop rows columns types st = Inr ((columns', types'), st') \<Longrightarrow>
     length columns = length types \<Longrightarrow> ''date'' \<notin> set columns \<Longrightarrow>
     length columns' = length types' \<and> ''date'' \<notin> set columns'"
  by (induction rows columns types st rule: columns_loop.induct)
     (auto simp: logging_def split: if_splits)

lemma get_columns_and_types_state:
  assumes "get_columns_and_types W db_name table_name st = Inr ((columns, types), st')"
  shows "queries st' = queries st @ [''DESCRIBE TABLE '' @ db_name @ ''.'' @ table_name]"
    and "fitted st' = fitted st"
    and "successful_tables st' = successful_tables st" and "new_tables st' = new_tables st"
    and "updated_tables st' = updated_tables st" and "failed_tables st' = failed_tables st"
    and "skipped_tables st' = skipped_tables st"
    and "length columns = length types" and "''date'' \<notin> set columns"
  using assms columns_loop_state columns_loop_columns[where columns="[]" and types="[]"]
  unfolding get_columns_and_types_def query_def
  by (fastforce split: sum.splits prod.splits)+

text \<open>
  Claim C4. Of the pairs of name and type that \<open>DESCRIBE TABLE\<close> returns,
  \<open>get_columns_and_types\<close> keeps, in order, exactly those whose name is not \<open>date\<close> and
  whose type contains none of \<open>String\<close>, \<open>Text\<close>, \<open>Enum\<close>, \<open>Boolean\<close>, \<open>Blob\<close>,
  \<open>Binary\<close>, \<open>Array\<close>, \<open>JSON\<close>, \<open>UUID\<close> as a substring (case-sensitive, anywhere).
  Both the schema of the forecast table (\<open>process_table\<close> hands the lists to
  \<open>create_forecast_table\<close>) and the forecast (\<open>forecast_table\<close> calls the function itself)
  take their columns from this function.
\<close>
theorem get_columns_and_types_retained:
  assumes "respond W (queries st) (''DESCRIBE TABLE '' @ db_name @ ''.'' @ table_name)
             = Inr (map (\<lambda>(column, ty, rest). CStr column # CStr ty # rest) columns_info)"
  shows "\<exists>columns types st'.
           get_columns_and_types W db_name table_name st = Inr ((columns, types), st')
           \<and> length columns = length types
           \<and> zip columns types =
               filter (\<lambda>(column, ty). column \<noteq> ''date'' \<and>
                         (\<forall>skip \<in> {''String'', ''Text'', ''Enum'', ''Boolean'', ''Blob'', ''Binary'',
                                     ''Array'', ''JSON'', ''UUID''}. \<not> sublist skip ty))
                 (map (\<lambda>(column, ty, rest). (column, ty)) columns_info)"
proof -
  let ?kept = "filter (\<lambda>(c, t). c \<noteq> ''date'' \<and> \<not> skipped_type t)
                 (map (\<lambda>(c, t, rest). (c, t)) columns_info)"
  have "\<exists>st'. get_columns_and_types W db_name table_name st = Inr ((map fst ?kept, map snd ?kept), st')"
    using assms by (simp add: get_columns_and_types_def query_def columns_loop_wf)
  moreover have "zip (map fst ?kept) (map snd ?kept) = ?kept"
    by (simp add: zip_map_fst_snd)
  moreover have "?kept = filter (\<lambda>(column, ty). column \<noteq> ''date'' \<and>
                         (\<forall>skip \<in> {''String'', ''Text'', ''Enum'', ''Boolean'', ''Blob'', ''Binary'',
                                     ''Array'', ''JSON'', ''UUID''}. \<not> sublist skip ty))
                 (map (\<lambda>(column, ty, rest). (column, ty)) columns_info)"
    by (rule filter_cong) (auto simp: skipped_type_iff)
  ultimately obtain st' where
    "get_columns_and_types W db_name table_name st = Inr ((map fst ?kept, map snd ?kept), st')"
    and "zip (map fst ?kept) (map snd ?kept) =
           filter (\<lambda>(column, ty). column \<noteq> ''date'' \<and>
                         (\<forall>skip \<in> {''String'', ''Text'', ''Enum'', ''Boolean'', ''Blob'', ''Binary'',
                                     ''Array'', ''JSON'', ''UUID''}. \<not> sublist skip ty))
                 (map (\<lambda>(column, ty, rest). (column, ty)) columns_info)"
    by auto
  then show ?thesis
    by (intro exI[of _ "map fst ?kept"] exI[of _ "map snd ?kept"] exI[of _ st']) simp
qed





text \<open>
  Claim C9. When the query for the source data returns no rows, \<open>forecast_table\<close> logs a
  warning, appends the table to \<open>failed_tables\<close> and returns: the table is not appended to
  \<open>successful_tables\<close>, no model is fitted, and the only statements sent are the
  \<open>DESCRIBE\<close> and the \<open>SELECT\<close>, so nothing is inserted into the forecast table.
\<close>
theorem forecast_table_empty_source:
  assumes "get_columns_and_types W db_name table_name st = Inr ((columns, types), st1)"
    and "respond W (queries st1) (query_select db_name table_name columns) = Inr []"
  shows "\<exists>st'. forecast_table W db_name table_name interval only_future st = Inr st'
           \<and> logs st' = logs st1 @ [(WARNING, MissingData table_name)]
           \<and> failed_tables st' = failed_tables st @ [table_name]
           \<and> successful_tables st' = successful_tables st
           \<and> fitted st' = fitted st
           \<and> queries st' = queries st @ [''DESCRIBE TABLE '' @ db_name @ ''.'' @ table_name,
                                           query_select db_name table_name columns]"
  using assms get_columns_and_types_state[OF assms(1)]
  by (simp add: forecast_table_def query_def data_frame_def logging_def)

lemma create_forecast_table_name_stem:
  "strip table_name = table_name \<Longrightarrow>
     create_forecast_table_name db_name table_name = db_name @ ''.bucket_forecast_'' @ stem table_name"
  by (simp add: create_forecast_table_name_def stem_def startswith_def)

lemma insert_table_name_stem:
  "prefix ''bucket_'' table_name \<Longrightarrow>
     insert_table_name db_name table_name = db_name @ ''.bucket_forecast_'' @ stem table_name"
  by (simp add: insert_table_name_def stem_def)

lemma insert_table_name_differs:
  "\<not> prefix ''bucket_'' table_name \<Longrightarrow> table_name \<noteq> [] \<Longrightarrow>
     insert_table_name db_name table_name \<noteq> db_name @ ''.bucket_forecast_'' @ stem table_name"
proof -
  assume "\<not> prefix ''bucket_'' table_name" and ne: "table_name \<noteq> []"
  then have "stem table_name = table_name" by (simp add: stem_def)
  moreover have "drop 7 table_name \<noteq> table_name"
    using ne by (metis drop_eq_Nil length_drop diff_is_0_eq' le_numeral_extra(3)
        length_0_conv zero_less_numeral diff_less length_greater_0_conv less_irrefl)
  ultimately show ?thesis by (simp add: insert_table_name_def)
qed

text \<open>
  Claim C1, at the table \<open>orders\<close>: \<open>create_forecast_table\<close> creates
  \<open>bucket_forecast_orders\<close>, as the rule says, but \<open>forecast_table\<close> removes the first seven
  characters whether or not they are \<open>bucket_\<close>, and inserts into \<open>bucket_forecast_\<close>.
\<close>
theorem insert_name_ignores_prefix_check:
  "create_forecast_table_name ''forecast_db'' ''orders'' = ''forecast_db.bucket_forecast_orders''
   \<and> insert_table_name ''forecast_db'' ''orders'' = ''forecast_db.bucket_forecast_''"
  by (simp add: create_forecast_table_name_def insert_table_name_def startswith_def strip_def isspace_def)

lemma collect_rows_dates:
  "fst ` set (collect_rows col forecast fd) = fst ` set forecast \<union> fst ` set fd"
  by (induction col forecast fd rule: collect_rows.induct)
     (auto simp: Let_def AList.dom_update)

lemma collect_rows_distinct:
  "distinct (map fst fd) \<Longrightarrow> distinct (map fst (collect_rows col forecast fd))"
  by (induction col forecast fd rule: collect_rows.induct)
     (auto simp: Let_def AList.distinct_update)


lemma collect_rows_other_key:
  "map_of (collect_rows col forecast fd) ds = Some data' \<Longrightarrow> key \<notin> set (forecast_keys col) \<Longrightarrow>
     map_of data' key =
       (case map_of fd ds of
          Some data \<Rightarrow> map_of data key
        | None \<Rightarrow> if key = ''date'' then Some (Date ds) else None)"
proof (induction col forecast fd arbitrary: data' rule: collect_rows.induct)
  case (1 col forecast_data)
  then show ?case by simp
next
  case (2 col ds0 yhat yhat_lower yhat_upper export_data forecast_data)
  let ?row0 = "case map_of forecast_data ds0 of None \<Rightarrow> [(''date'', Date ds0)] | Some r \<Rightarrow> r"
  let ?row3 = "AList.update (col @ ''_max'') (Value yhat_upper)
                 (AList.update (col @ ''_min'') (Value yhat_lower)
                    (AList.update col (Value yhat) ?row0))"
  let ?fd1 = "AList.update ds0 ?row3 forecast_data"
  have step: "map_of (collect_rows col export_data ?fd1) ds = Some data'"
    using "2.prems"(1) by (simp add: Let_def)
  have "map_of data' key =
       (case map_of ?fd1 ds of
          Some data \<Rightarrow> map_of data key
        | None \<Rightarrow> if key = ''date'' then Some (Date ds) else None)"
    using "2.IH"[OF refl refl refl refl step "2.prems"(2)] .
  moreover have "map_of ?row3 key = map_of ?row0 key"
    using "2.prems"(2) by (simp add: AList.update_conv' forecast_keys_def)
  ultimately show ?case
    by (auto simp: AList.update_conv' split: option.splits if_splits)
qed


lemma forecast_keys_not_date: "col \<noteq> ''date'' \<Longrightarrow> ''date'' \<notin> set (forecast_keys col)"
proof -
  have "last (col @ ''_min'') \<noteq> last ''date''" "last (col @ ''_max'') \<noteq> last ''date''"
    by simp_all
  then have "col @ ''_min'' \<noteq> ''date''" "col @ ''_max'' \<noteq> ''date''" by metis+
  then show "col \<noteq> ''date'' \<Longrightarrow> ''date'' \<notin> set (forecast_keys col)"
    by (auto simp: forecast_keys_def)
qed

lemma forecast_columns_state:
  "forecast_columns W T interval only_future columns data lkd cols fd st = (fd', st') \<Longrightarrow>
     queries st' = queries st
     \<and> successful_tables st' = successful_tables st \<and> new_tables st' = new_tables st
     \<and> updated_tables st' = updated_tables st \<and> skipped_tables st' = skipped_tables st
     \<and> fitted st' = fitted st @ map (Pair T) cols
     \<and> failed_tables st' = failed_tables st @
          replicate (length (filter (\<lambda>col. isl (forecast_column W interval only_future lkd
                                                     (series columns data col))) cols)) T"
proof (induction cols arbitrary: fd st)
  case Nil
  then show ?case by simp
next
  case (Cons col cols)
  show ?case
  proof (cases "forecast_column W interval only_future lkd (series columns data col)")
    case (Inl e)
    with Cons.prems have
      "forecast_columns W T interval only_future columns data lkd cols fd
         (logging ERROR (ForecastFailed col T e)
            (st\<lparr>fitted := fitted st @ [(T, col)], failed_tables := failed_tables st @ [T]\<rparr>))
       = (fd', st')"
      by (simp add: Let_def)
    from Cons.IH[OF this] Inl show ?thesis
      by (simp add: logging_def replicate_append_same)
  next
    case (Inr forecast)
    with Cons.prems have
      "forecast_columns W T interval only_future columns data lkd cols
         (collect_rows col forecast fd) (st\<lparr>fitted := fitted st @ [(T, col)]\<rparr>) = (fd', st')"
      by (simp add: Let_def)
    from Cons.IH[OF this] Inr show ?thesis by simp
  qed
qed

text \<open>A rule for invariants of the rows over the loop.\<close>

lemma forecast_columns_invariant:
  assumes run: "forecast_columns W T interval only_future columns data lkd cols fd st = (fd', st')"
    and init: "P fd"
    and step: "\<And>col forecast fd. col \<in> set cols \<Longrightarrow>
                 forecast_column W interval only_future lkd (series columns data col) = Inr forecast \<Longrightarrow>
                 P fd \<Longrightarrow> P (collect_rows col forecast fd)"
  shows "P fd'"
  using run init step
proof (induction cols arbitrary: fd st)
  case Nil
  then show ?case by simp
next
  case (Cons col cols)
  show ?case
  proof (cases "forecast_column W interval only_future lkd (series columns data col)")
    case (Inl e)
    with Cons.prems(1) have
      "forecast_columns W T interval only_future columns data lkd cols fd
         (logging ERROR (ForecastFailed col T e)
            (st\<lparr>fitted := fitted st @ [(T, col)], failed_tables := failed_tables st @ [T]\<rparr>))
       = (fd', st')"
      by (simp add: Let_def)
    then show ?thesis
      by (rule Cons.IH) (use Cons.prems in auto)
  next
    case (Inr forecast)
    with Cons.prems(1) have
      "forecast_columns W T interval only_future columns data lkd cols
         (collect_rows col forecast fd) (st\<lparr>fitted := fitted st @ [(T, col)]\<rparr>) = (fd', st')"
      by (simp add: Let_def)
    then show ?thesis
      by (rule Cons.IH) (use Cons.prems Inr in auto)
  qed
qed

lemma forecast_columns_reaches:
  assumes run: "forecast_columns W T interval only_future columns data lkd cols fd st = (fd', st')"
    and col: "col \<in> set cols"
    and ok: "forecast_column W interval only_future lkd (series columns data col) = Inr forecast"
    and after: "\<And>fd. P (collect_rows col forecast fd)"
    and step: "\<And>c forecast fd. c \<in> set cols \<Longrightarrow> c \<noteq> col \<Longrightarrow>
                 forecast_column W interval only_future lkd (series columns data c) = Inr forecast \<Longrightarrow>
                 P fd \<Longrightarrow> P (collect_rows c forecast fd)"
  shows "P fd'"
  using run col step
proof (induction cols arbitrary: fd st)
  case Nil
  then show ?case by simp
next
  case (Cons c cols)
  let ?inv = "\<lambda>fd. P fd"
  show ?case
  proof (cases "forecast_column W interval only_future lkd (series columns data c)")
    case (Inl e)
    with ok have "c \<noteq> col" by auto
    from Inl Cons.prems(1) have
      "forecast_columns W T interval only_future columns data lkd cols fd
         (logging ERROR (ForecastFailed c T e)
            (st\<lparr>fitted := fitted st @ [(T, c)], failed_tables := failed_tables st @ [T]\<rparr>))
       = (fd', st')"
      by (simp add: Let_def)
    then show ?thesis
      by (rule Cons.IH) (use Cons.prems \<open>c \<noteq> col\<close> in auto)
  next
    case (Inr fc)
    with Cons.prems(1) have rest:
      "forecast_columns W T interval only_future columns data lkd cols
         (collect_rows c fc fd) (st\<lparr>fitted := fitted st @ [(T, c)]\<rparr>) = (fd', st')"
      by (simp add: Let_def)
    show ?thesis
    proof (cases "col \<in> set cols")
      case True
      from rest show ?thesis
        by (rule Cons.IH) (use Cons.prems True in auto)
    next
      case False
      then have c: "c = col" using Cons.prems(2) by simp
      then have "fc = forecast" using Inr ok by simp
      then have "P (collect_rows c fc fd)" using after c by simp
      with rest show ?thesis
      proof (rule forecast_columns_invariant)
        fix c' forecast' fd0
        assume "c' \<in> set cols"
          and "forecast_column W interval only_future lkd (series columns data c') = Inr forecast'"
          and "P fd0"
        then show "P (collect_rows c' forecast' fd0)"
          using Cons.prems(3)[of c' forecast' fd0] False by auto
      qed
    qed
  qed
qed

lemmas demo_defs =
  demo_world_def demo_respond_def init_state_def str_int_def
  main_def get_clickhouse_connection_def candidate_tables_def get_tables_def query_def logging_def
  process_table_def startswith_def get_columns_and_types_def skipped_type_def SKIP_DATA_TYPES_def
  sublist_code create_forecast_table_def create_forecast_table_name_def strip_def isspace_def
  short_table_name_def exists_flag_def query_create_def columns_definitions_def nl_def
  forecast_table_def query_select_def data_frame_def series_def forecast_column_def Let_def
  insert_forecast_data_def insert_table_name_def query_insert_def query_values_def row_values_def
  field_def str_entry_def quote_def summary_def

lemma join_Cons: "ys \<noteq> [] \<Longrightarrow> join sep (x # ys) = x @ sep @ join sep ys"
  by (cases ys) auto

lemma join_three:
  "xs \<noteq> [] \<Longrightarrow> join sep (map f xs @ map g xs @ map h xs)
     = join sep (map f xs) @ sep @ join sep (map g xs) @ sep @ join sep (map h xs)"
  by (simp add: join_append)

lemma query_insert_columns:
  "columns \<noteq> [] \<Longrightarrow> query_insert name columns =
     nl @ ''        INSERT INTO '' @ name @ '' ('' @ join '', '' (insert_columns columns) @ '')'' @
     nl @ ''        VALUES'' @ nl @ ''        ''"
  using join_three[of columns "'', ''" "\<lambda>c. c" "\<lambda>col. col @ ''_min''" "\<lambda>col. col @ ''_max''"]
  by (simp add: query_insert_def insert_columns_def join_Cons)

lemma row_values_fields:
  "columns \<noteq> [] \<Longrightarrow> row_values W columns data = ''('' @ join '', '' (insert_fields W columns data) @ '')''"
  using join_three[of columns "'', ''" "\<lambda>col. field W data col" "\<lambda>col. field W data (col @ ''_min'')"
          "\<lambda>col. field W data (col @ ''_max'')"]
  by (simp add: row_values_def insert_fields_def insert_columns_def join_Cons field_def comp_def)

lemma query_insert_statement:
  "columns \<noteq> [] \<Longrightarrow>
     query_insert name columns @ query_values W columns forecast_data
       = insert_statement name (insert_columns columns)
           (map (\<lambda>(ds, data). insert_fields W columns data) forecast_data)"
  by (simp add: query_insert_columns query_values_def insert_statement_def row_values_fields
        comp_def case_prod_unfold)

lemma forecast_columns_no_columns:
  "forecast_columns W T interval only_future columns data lkd cols [] st = (fd, st') \<Longrightarrow>
     fd \<noteq> [] \<Longrightarrow> cols \<noteq> []"
  by (cases cols) auto

text \<open>
  Claim C7. When the loop over the columns has produced at least one row, the insert sends
  exactly one statement: the \<open>INSERT\<close> whose column list is \<open>date\<close>, then every column,
  then every \<open>_min\<close> column, then every \<open>_max\<close> column, with one tuple of values for each
  row. Every tuple has a field for every column of the list, and the field of a name the
  row has no value for is \<open>NULL\<close>. The database is assumed to accept the statement.
\<close>
theorem bulk_insert_statement:
  assumes rows: "forecast_columns W table_name interval only_future columns data last_known_date
                   columns [] st0 = (forecast_data, st)"
    and nonempty: "forecast_data \<noteq> []"
    and accepted: "respond W (queries st)
                     (query_insert name columns @ query_values W columns forecast_data) = Inr reply"
  shows "\<exists>st'. insert_forecast_data W name columns forecast_data st = Inr st'
           \<and> queries st' = queries st @
                 [insert_statement name (insert_columns columns)
                    (map (\<lambda>(ds, data). insert_fields W columns data) forecast_data)]
           \<and> insert_columns columns = ''date'' # columns @ map (\<lambda>col. col @ ''_min'') columns
                                           @ map (\<lambda>col. col @ ''_max'') columns
           \<and> (\<forall>(ds, data) \<in> set forecast_data.
                 length (insert_fields W columns data) = length (insert_columns columns)
               \<and> (\<forall>i. 0 < i \<and> i < length (insert_columns columns)
                        \<and> map_of data (insert_columns columns ! i) = None
                      \<longrightarrow> insert_fields W columns data ! i = ''NULL''))"
proof -
  have cols: "columns \<noteq> []"
    using forecast_columns_no_columns[OF rows nonempty] .
  have "insert_forecast_data W name columns forecast_data st
          = Inr (logging INFO (Inserted name)
                  (st\<lparr>queries := queries st @
                     [insert_statement name (insert_columns columns)
                        (map (\<lambda>(ds, data). insert_fields W columns data) forecast_data)]\<rparr>))"
    using nonempty accepted
    by (simp add: insert_forecast_data_def query_def query_insert_statement[OF cols])
  moreover have "length (insert_fields W columns d) = length (insert_columns columns)" for d
    by (simp add: insert_fields_def insert_columns_def)
  moreover have "insert_fields W columns d ! i = ''NULL''"
    if "0 < i" "i < length (insert_columns columns)" "map_of d (insert_columns columns ! i) = None"
    for d i
  proof -
    from that(1) obtain j where j: "i = Suc j" by (cases i) auto
    have "j < length (tl (insert_columns columns))" using that(2) j by (simp add: insert_columns_def)
    moreover have "tl (insert_columns columns) ! j = insert_columns columns ! i"
      using j by (simp add: insert_columns_def)
    ultimately show ?thesis using that(3) j by (simp add: insert_fields_def)
  qed
  ultimately show ?thesis
    by (auto simp: logging_def insert_columns_def)
qed

lemma forecast_table_run:
  assumes describe: "get_columns_and_types W db_name table_name st = Inr ((columns, types), st1)"
    and select: "respond W (queries st1) (query_select db_name table_name columns) = Inr result_set"
    and nonempty: "result_set \<noteq> []"
    and widths: "list_all (\<lambda>r. length r = Suc (length columns)) result_set"
    and dates: "to_datetime result_set = Inr data"
    and loop: "forecast_columns W table_name interval only_future columns data
                 (max_date (map fst data)) columns []
                 (st1\<lparr>queries := queries st1 @ [query_select db_name table_name columns]\<rparr>)
               = (forecast_data, st3)"
  shows "forecast_table W db_name table_name interval only_future st =
           (case insert_forecast_data W (insert_table_name db_name table_name) columns
                   forecast_data st3 of
              Inl e \<Rightarrow> Inl e
            | Inr st4 \<Rightarrow> Inr (st4\<lparr>successful_tables := successful_tables st4 @ [table_name]\<rparr>))"
  using assms by (simp add: forecast_table_def query_def data_frame_def)

lemma forecast_table_loop_state:
  assumes describe: "get_columns_and_types W db_name table_name st = Inr ((columns, types), st1)"
    and loop: "forecast_columns W table_name interval only_future columns data lkd cols fd
                 (st1\<lparr>queries := queries st1 @ [query_select db_name table_name columns]\<rparr>)
               = (forecast_data, st3)"
  shows "queries st3 = queries st @ [''DESCRIBE TABLE '' @ db_name @ ''.'' @ table_name,
                                     query_select db_name table_name columns]"
    and "successful_tables st3 = successful_tables st"
    and "fitted st3 = fitted st @ map (Pair table_name) cols"
    and "failed_tables st3 = failed_tables st @
          replicate (length (filter (\<lambda>col. isl (forecast_column W interval only_future lkd
                                                     (series columns data col))) cols)) table_name"
  using forecast_columns_state[OF loop] get_columns_and_types_state[OF describe]
  by simp_all

text \<open>
  Claim C8. When the source has rows but the loop over the columns produces no forecast row
  (every column failed, say), \<open>forecast_table\<close> returns normally without any statement
  after the \<open>SELECT\<close>, and appends the table to \<open>successful_tables\<close>.
\<close>
theorem no_rows_no_insert:
  assumes describe: "get_columns_and_types W db_name table_name st = Inr ((columns, types), st1)"
    and select: "respond W (queries st1) (query_select db_name table_name columns) = Inr result_set"
    and nonempty: "result_set \<noteq> []"
    and widths: "list_all (\<lambda>r. length r = Suc (length columns)) result_set"
    and dates: "to_datetime result_set = Inr data"
    and loop: "forecast_columns W table_name interval only_future columns data
                 (max_date (map fst data)) columns []
                 (st1\<lparr>queries := queries st1 @ [query_select db_name table_name columns]\<rparr>)
               = ([], st3)"
  shows "forecast_table W db_name table_name interval only_future st
           = Inr (st3\<lparr>successful_tables := successful_tables st @ [table_name]\<rparr>)
         \<and> queries st3 = queries st @ [''DESCRIBE TABLE '' @ db_name @ ''.'' @ table_name,
                                        query_select db_name table_name columns]"
  using forecast_table_run[OF assms] forecast_table_loop_state[OF describe loop]
  by (simp add: insert_forecast_data_def)

theorem get_columns_and_types_retained_witness:
  "\<exists>columns types st'.
     get_columns_and_types demo_world ''db'' ''bucket_sales'' init_state = Inr ((columns, types), st')
     \<and> length columns = length types
     \<and> zip columns types = [(''a'', ''Float64''), (''b'', ''Nullable(Float64)'')]"
proof -
  have reply: "respond demo_world (queries init_state) (''DESCRIBE TABLE '' @ ''db'' @ ''.'' @ ''bucket_sales'')
      = Inr (map (\<lambda>(column, ty, rest). CStr column # CStr ty # rest)
          [(''date'', ''Date'', [CStr '''']), (''a'', ''Float64'', [CStr '''']),
           (''b'', ''Nullable(Float64)'', [CStr '''']), (''note'', ''String'', [CStr ''''])])"
    by (simp add: demo_world_def demo_respond_def)
  show ?thesis
    using get_columns_and_types_retained[OF reply] by (simp add: sublist_code)
qed


theorem forecast_table_empty_source_witness:
  "\<exists>st'. forecast_table demo_world ''db'' ''bucket_empty'' 2 True init_state = Inr st'
         \<and> logs st' = [(INFO, SkipColumn ''note'' ''String''), (WARNING, MissingData ''bucket_empty'')]
         \<and> failed_tables st' = [''bucket_empty'']
         \<and> successful_tables st' = []
         \<and> fitted st' = []
         \<and> queries st' = [''DESCRIBE TABLE db.bucket_empty'',
                           ''SELECT date, a, b FROM db.bucket_empty ORDER BY date'']"
proof -
  let ?st1 = "init_state\<lparr>queries := [''DESCRIBE TABLE db.bucket_empty''],
                logs := [(INFO, SkipColumn ''note'' ''String'')]\<rparr> :: int state"
  have describe: "get_columns_and_types demo_world ''db'' ''bucket_empty'' init_state
      = Inr (([''a'', ''b''], [''Float64'', ''Nullable(Float64)'']), ?st1)"
    by (simp add: demo_defs)
  have select: "respond demo_world (queries ?st1) (query_select ''db'' ''bucket_empty'' [''a'', ''b''])
      = Inr []"
    by (simp add: demo_defs)
  show ?thesis
    using forecast_table_empty_source[OF describe select, where interval=2 and only_future=True]
    by (simp add: init_state_def query_select_def)
qed

theorem create_forecast_table_schema_witness:
  "(\<exists>st'. create_forecast_table demo_world ''db'' ''bucket_sales'' [''a'', ''b'']
            [''Float64'', ''Nullable(Float64)''] init_state = Inr st'
         \<and> queries st' = [''EXISTS TABLE db.bucket_forecast_sales'',
                           ''DROP TABLE db.bucket_forecast_sales'',
                           create_statement ''db.bucket_forecast_sales''
                             [(''date'', ''Date''),
                              (''a'', ''Float64''), (''a_min'', ''Float64''), (''a_max'', ''Float64''),
                              (''b'', ''Nullable(Float64)''), (''b_min'', ''Nullable(Float64)''),
                              (''b_max'', ''Nullable(Float64)'')]]
         \<and> updated_tables st' = [''bucket_sales'']
         \<and> new_tables st' = [])
   \<and> (\<exists>st'. create_forecast_table demo_world ''db'' ''bucket_sales'' [''a'']
            [''Float64''] (init_state\<lparr>queries := [''DROP TABLE db.bucket_forecast_sales'']\<rparr>) = Inr st'
         \<and> queries st' = [''DROP TABLE db.bucket_forecast_sales'',
                           ''EXISTS TABLE db.bucket_forecast_sales'',
                           create_statement ''db.bucket_forecast_sales''
                             [(''date'', ''Date''),
                              (''a'', ''Float64''), (''a_min'', ''Float64''), (''a_max'', ''Float64'')]]
         \<and> updated_tables st' = []
         \<and> new_tables st' = [''bucket_sales''])"
proof
  have name: "create_forecast_table_name ''db'' ''bucket_sales'' = ''db.bucket_forecast_sales''"
    by (simp add: demo_defs)
  have exists_reply: "respond demo_world (queries init_state)
        (''EXISTS TABLE '' @ create_forecast_table_name ''db'' ''bucket_sales'') = Inr ((CInt 1 # []) # [])"
    unfolding name by (simp add: demo_defs)
  have drop_reply: "(CInt 1 :: int cell) = CInt 1 \<Longrightarrow> respond demo_world
        (queries init_state @ [''EXISTS TABLE '' @ create_forecast_table_name ''db'' ''bucket_sales''])
        (''DROP TABLE '' @ create_forecast_table_name ''db'' ''bucket_sales'') = Inr []"
    unfolding name by (simp add: demo_defs)
  have create_reply: "respond demo_world
        (queries init_state @ [''EXISTS TABLE '' @ create_forecast_table_name ''db'' ''bucket_sales'']
           @ (if (CInt 1 :: int cell) = CInt 1
              then [''DROP TABLE '' @ create_forecast_table_name ''db'' ''bucket_sales''] else []))
        (query_create (create_forecast_table_name ''db'' ''bucket_sales'') [''a'', ''b'']
           [''Float64'', ''Nullable(Float64)'']) = Inr []"
    unfolding name by (simp add: demo_defs)
  show "\<exists>st'. create_forecast_table demo_world ''db'' ''bucket_sales'' [''a'', ''b'']
            [''Float64'', ''Nullable(Float64)''] init_state = Inr st'
         \<and> queries st' = [''EXISTS TABLE db.bucket_forecast_sales'',
                           ''DROP TABLE db.bucket_forecast_sales'',
                           create_statement ''db.bucket_forecast_sales''
                             [(''date'', ''Date''),
                              (''a'', ''Float64''), (''a_min'', ''Float64''), (''a_max'', ''Float64''),
                              (''b'', ''Nullable(Float64)''), (''b_min'', ''Nullable(Float64)''),
                              (''b_max'', ''Nullable(Float64)'')]]
         \<and> updated_tables st' = [''bucket_sales'']
         \<and> new_tables st' = []"
    using create_forecast_table_schema[OF exists_reply drop_reply create_reply]
    unfolding name by (simp add: init_state_def forecast_schema_def) blast
next
  let ?st = "init_state\<lparr>queries := [''DROP TABLE db.bucket_forecast_sales'']\<rparr> :: int state"
  have name: "create_forecast_table_name ''db'' ''bucket_sales'' = ''db.bucket_forecast_sales''"
    by (simp add: demo_defs)
  have exists_reply: "respond demo_world (queries ?st)
        (''EXISTS TABLE '' @ create_forecast_table_name ''db'' ''bucket_sales'') = Inr ((CInt 0 # []) # [])"
    unfolding name by (simp add: demo_defs)
  have drop_reply: "(CInt 0 :: int cell) = CInt 1 \<Longrightarrow> respond demo_world
        (queries ?st @ [''EXISTS TABLE '' @ create_forecast_table_name ''db'' ''bucket_sales''])
        (''DROP TABLE '' @ create_forecast_table_name ''db'' ''bucket_sales'') = Inr []"
    by simp
  have create_reply: "respond demo_world
        (queries ?st @ [''EXISTS TABLE '' @ create_forecast_table_name ''db'' ''bucket_sales'']
           @ (if (CInt 0 :: int cell) = CInt 1
              then [''DROP TABLE '' @ create_forecast_table_name ''db'' ''bucket_sales''] else []))
        (query_create (create_forecast_table_name ''db'' ''bucket_sales'') [''a''] [''Float64'']) = Inr []"
    unfolding name by (simp add: demo_defs)
  show "\<exists>st'. create_forecast_table demo_world ''db'' ''bucket_sales'' [''a'']
            [''Float64''] ?st = Inr st'
         \<and> queries st' = [''DROP TABLE db.bucket_forecast_sales'',
                           ''EXISTS TABLE db.bucket_forecast_sales'',
                           create_statement ''db.bucket_forecast_sales''
                             [(''date'', ''Date''),
                              (''a'', ''Float64''), (''a_min'', ''Float64''), (''a_max'', ''Float64'')]]
         \<and> updated_tables st' = []
         \<and> new_tables st' = [''bucket_sales'']"
    using create_forecast_table_schema[OF exists_reply drop_reply create_reply]
    unfolding name by (simp add: init_state_def forecast_schema_def) blast
qed



lemma forecast_columns_distinct_dates:
  assumes "forecast_columns W T interval only_future columns data lkd cols fd st = (fd', st')"
    and "distinct (map fst fd)"
  shows "distinct (map fst fd')"
  using assms(1,2) by (rule forecast_columns_invariant) (rule collect_rows_distinct)





lemma demo_describe:
  "get_columns_and_types demo_world ''db'' ''bucket_sales'' init_state
     = Inr (([''a'', ''b''], [''Float64'', ''Nullable(Float64)'']),
            init_state\<lparr>queries := [''DESCRIBE TABLE db.bucket_sales''],
                         logs := [(INFO, SkipColumn ''note'' ''String'')]\<rparr>)"
  by (simp add: demo_defs)

lemma demo_select:
  "respond demo_world
     (queries (init_state\<lparr>queries := [''DESCRIBE TABLE db.bucket_sales''],
                           logs := [(INFO, SkipColumn ''note'' ''String'')]\<rparr> :: int state))
     (query_select ''db'' ''bucket_sales'' [''a'', ''b''])
   = Inr [[CDate 1, CFloat 10, CNull], [CDate 2, CFloat 20, CNull]]"
  by (simp add: demo_defs)

lemma demo_dates:
  "to_datetime [[CDate 1, CFloat 10, CNull], [CDate 2, CFloat (20::int), CNull]]
     = Inr [(1, [CFloat 10, CNull]), (2, [CFloat 20, CNull])]"
  by simp



lemma demo_loop:
  "forecast_columns demo_world ''bucket_sales'' 2 True [''a'', ''b'']
     [(1, [CFloat 10, CNull]), (2, [CFloat 20, CNull])]
     (max_date (map fst [(1, [CFloat 10, CNull]), (2, [CFloat (20::int), CNull])])) [''a'', ''b''] []
     (init_state\<lparr>queries := [''DESCRIBE TABLE db.bucket_sales''],
                  logs := [(INFO, SkipColumn ''note'' ''String'')]\<rparr>
        \<lparr>queries := queries (init_state\<lparr>queries := [''DESCRIBE TABLE db.bucket_sales''],
                                          logs := [(INFO, SkipColumn ''note'' ''String'')]\<rparr> :: int state)
                      @ [query_select ''db'' ''bucket_sales'' [''a'', ''b'']]\<rparr>)
   = ([(3, [(''date'', Date 3), (''a'', Value 30), (''a_min'', Value 29), (''a_max'', Value 31)]),
       (4, [(''date'', Date 4), (''a'', Value 40), (''a_min'', Value 39), (''a_max'', Value 41)])],
      \<lparr>queries = [''DESCRIBE TABLE db.bucket_sales'',
                  ''SELECT date, a, b FROM db.bucket_sales ORDER BY date''],
       logs = [(INFO, SkipColumn ''note'' ''String''),
               (ERROR, ForecastFailed ''b'' ''bucket_sales''
                  (ForecastingError ''Dataframe has less than 2 non-NaN rows.''))],
       fitted = [(''bucket_sales'', ''a''), (''bucket_sales'', ''b'')],
       successful_tables = [], new_tables = [], updated_tables = [],
       failed_tables = [''bucket_sales''], skipped_tables = []\<rparr>)"
  by (simp add: demo_defs)

lemma demo_insert_accepted:
  "respond demo_world qs (query_insert name columns @ vals) = Inr []"
  by (simp add: demo_defs)


theorem bulk_insert_statement_witness:
  "\<exists>st'. insert_forecast_data demo_world ''db.bucket_forecast_sales'' [''a'', ''b'']
            [(3, [(''date'', Date 3), (''a'', Value 30), (''a_min'', Value 29), (''a_max'', Value 31)]),
             (4, [(''date'', Date 4), (''a'', Value 40), (''a_min'', Value 39), (''a_max'', Value 41)])]
            \<lparr>queries = [''DESCRIBE TABLE db.bucket_sales'',
                        ''SELECT date, a, b FROM db.bucket_sales ORDER BY date''],
             logs = [(INFO, SkipColumn ''note'' ''String''),
                     (ERROR, ForecastFailed ''b'' ''bucket_sales''
                        (ForecastingError ''Dataframe has less than 2 non-NaN rows.''))],
             fitted = [(''bucket_sales'', ''a''), (''bucket_sales'', ''b'')],
             successful_tables = [], new_tables = [], updated_tables = [],
             failed_tables = [''bucket_sales''], skipped_tables = []\<rparr> = Inr st'
     \<and> queries st' =
         [''DESCRIBE TABLE db.bucket_sales'',
          ''SELECT date, a, b FROM db.bucket_sales ORDER BY date'',
          insert_statement ''db.bucket_forecast_sales''
            [''date'', ''a'', ''b'', ''a_min'', ''b_min'', ''a_max'', ''b_max'']
            [[quote @ ''2024-01-03'' @ quote, ''30'', ''NULL'', ''29'', ''NULL'', ''31'', ''NULL''],
             [quote @ ''2024-01-04'' @ quote, ''40'', ''NULL'', ''39'', ''NULL'', ''41'', ''NULL'']]]"
proof -
  have nonempty:
    "[(3, [(''date'', Date 3), (''a'', Value 30), (''a_min'', Value 29), (''a_max'', Value 31)]),
      (4, [(''date'', Date 4), (''a'', Value 40), (''a_min'', Value 39), (''a_max'', Value 41)])]
     \<noteq> ([] :: int forecast_data)"
    by simp
  show ?thesis
    using bulk_insert_statement[OF demo_loop nonempty demo_insert_accepted,
            where name="''db.bucket_forecast_sales''"]
    by (simp add: insert_columns_def insert_fields_def
          str_entry_def demo_world_def str_int_def) blast
qed


theorem no_rows_no_insert_witness:
  "forecast_table demo_world ''db'' ''bucket_nulls'' 2 True init_state
     = Inr \<lparr>queries = [''DESCRIBE TABLE db.bucket_nulls'',
                        ''SELECT date, a, b FROM db.bucket_nulls ORDER BY date''],
             logs = [(INFO, SkipColumn ''note'' ''String''),
                     (ERROR, ForecastFailed ''a'' ''bucket_nulls''
                        (ForecastingError ''Dataframe has less than 2 non-NaN rows.'')),
                     (ERROR, ForecastFailed ''b'' ''bucket_nulls''
                        (ForecastingError ''Dataframe has less than 2 non-NaN rows.''))],
             fitted = [(''bucket_nulls'', ''a''), (''bucket_nulls'', ''b'')],
             successful_tables = [''bucket_nulls''], new_tables = [], updated_tables = [],
             failed_tables = [''bucket_nulls'', ''bucket_nulls''], skipped_tables = []\<rparr>"
proof -
  let ?st1 = "init_state\<lparr>queries := [''DESCRIBE TABLE db.bucket_nulls''],
                          logs := [(INFO, SkipColumn ''note'' ''String'')]\<rparr> :: int state"
  let ?rows = "[[CDate 1, CNull, CNull], [CDate 2, CNull, CNull]] :: int cell list list"
  let ?data = "[(1, [CNull, CNull]), (2, [CNull, CNull])] :: (int \<times> int cell list) list"
  let ?st3 = "\<lparr>queries = [''DESCRIBE TABLE db.bucket_nulls'',
                        ''SELECT date, a, b FROM db.bucket_nulls ORDER BY date''],
             logs = [(INFO, SkipColumn ''note'' ''String''),
                     (ERROR, ForecastFailed ''a'' ''bucket_nulls''
                        (ForecastingError ''Dataframe has less than 2 non-NaN rows.'')),
                     (ERROR, ForecastFailed ''b'' ''bucket_nulls''
                        (ForecastingError ''Dataframe has less than 2 non-NaN rows.''))],
             fitted = [(''bucket_nulls'', ''a''), (''bucket_nulls'', ''b'')],
             successful_tables = [], new_tables = [], updated_tables = [],
             failed_tables = [''bucket_nulls'', ''bucket_nulls''], skipped_tables = []\<rparr> :: int state"
  have describe: "get_columns_and_types demo_world ''db'' ''bucket_nulls'' init_state
      = Inr (([''a'', ''b''], [''Float64'', ''Nullable(Float64)'']), ?st1)"
    by (simp add: demo_defs)
  have select: "respond demo_world (queries ?st1) (query_select ''db'' ''bucket_nulls'' [''a'', ''b''])
      = Inr ?rows"
    by (simp add: demo_defs)
  have nonempty: "?rows \<noteq> []" by simp
  have widths: "list_all (\<lambda>r. length r = Suc (length [''a'', ''b''])) ?rows" by simp
  have dates: "to_datetime ?rows = Inr ?data" by simp
  have loop: "forecast_columns demo_world ''bucket_nulls'' 2 True [''a'', ''b''] ?data
                (max_date (map fst ?data)) [''a'', ''b''] []
                (?st1\<lparr>queries := queries ?st1 @ [query_select ''db'' ''bucket_nulls'' [''a'', ''b'']]\<rparr>)
              = ([], ?st3)"
    by (simp add: demo_defs)
  show ?thesis
    using no_rows_no_insert[OF describe select nonempty widths dates loop]
    by (simp add: init_state_def)
qed

lemma max_date_ge: "d \<in> set ds \<Longrightarrow> d \<le> max_date ds"
proof (cases ds)
  case Nil
  then show "d \<in> set ds \<Longrightarrow> d \<le> max_date ds" by simp
next
  case (Cons x xs)
  have "max_date ds = Max (set ds)"
    unfolding Cons max_date.simps by (rule Max.set_eq_fold[symmetric])
  then show "d \<in> set ds \<Longrightarrow> d \<le> max_date ds" by simp
qed

lemma forecast_column_only_future:
  assumes contract: "\<And>model future forecast.
                       predict W model future = Inr forecast \<Longrightarrow> fst ` set forecast \<subseteq> set future"
    and ok: "forecast_column W interval True lkd df = Inr forecast"
  shows "\<forall>ds \<in> fst ` set forecast. lkd < ds"
proof -
  from ok obtain model future where
    "predict W model (filter (\<lambda>ds. ds > lkd) future) = Inr forecast"
    by (auto simp: forecast_column_def split: sum.splits)
  from contract[OF this] show ?thesis by auto
qed

lemma forecast_columns_date_entries:
  fixes W :: "('m, 'v) world"
  assumes run: "forecast_columns W T interval only_future columns data lkd cols [] st = (fd', st')"
    and cols: "''date'' \<notin> set cols"
  shows "\<forall>(ds, row) \<in> set fd'. map_of row ''date'' = Some (Date ds)"
proof -
  let ?P = "\<lambda>fd :: 'v forecast_data. \<forall>ds row. map_of fd ds = Some row
               \<longrightarrow> map_of row ''date'' = Some (Date ds)"
  have "?P fd'"
    using run
  proof (rule forecast_columns_invariant)
    show "?P []" by simp
  next
    fix c forecast fd0
    assume c: "c \<in> set cols" and inv: "?P fd0"
    then have "c \<noteq> ''date''" using cols by auto
    then have key: "''date'' \<notin> set (forecast_keys c)" by (rule forecast_keys_not_date)
    show "?P (collect_rows c forecast fd0)"
    proof (intro allI impI)
      fix ds row
      assume "map_of (collect_rows c forecast fd0) ds = Some row"
      from collect_rows_other_key[OF this key] inv
      show "map_of row ''date'' = Some (Date ds)"
        by (auto split: option.splits)
    qed
  qed
  moreover have "distinct (map fst fd')"
    using forecast_columns_distinct_dates[OF run] by simp
  ultimately show ?thesis by (auto simp del: set_map)
qed

lemma forecast_columns_future_only:
  fixes W :: "('m, 'v) world"
  assumes run: "forecast_columns W T interval True columns data lkd cols [] st = (fd', st')"
    and contract: "\<And>model future forecast.
                     predict W model future = Inr forecast \<Longrightarrow> fst ` set forecast \<subseteq> set future"
  shows "\<forall>ds \<in> fst ` set fd'. lkd < ds"
  using run
proof (rule forecast_columns_invariant)
  show "\<forall>ds \<in> fst ` set ([] :: 'v forecast_data). lkd < ds" by simp
next
  fix c forecast and fd0 :: "'v forecast_data"
  assume ok: "forecast_column W interval True lkd (series columns data c) = Inr forecast"
    and inv: "\<forall>ds \<in> fst ` set fd0. lkd < ds"
  have "\<forall>ds \<in> fst ` set forecast. lkd < ds"
    by (rule forecast_column_only_future[of W, OF contract ok])
  with inv show "\<forall>ds \<in> fst ` set (collect_rows c forecast fd0). lkd < ds"
    unfolding collect_rows_dates by blast
qed

lemma forecast_columns_all_dates:
  assumes run: "forecast_columns W T interval only_future columns data lkd cols fd st = (fd', st')"
    and col: "col \<in> set cols"
    and ok: "forecast_column W interval only_future lkd (series columns data col) = Inr forecast"
  shows "fst ` set forecast \<subseteq> fst ` set fd'"
  using run col ok
  by (rule forecast_columns_reaches) (auto simp: collect_rows_dates)

text \<open>
  Claim C5. Let \<open>predict\<close> return rows only for the dates of the frame it is given. With
  \<open>only_future\<close>, every row handed to the insert carries its date and that date is
  strictly greater than the last observed date (the maximum of the source's dates, hence
  greater than every source date). Without \<open>only_future\<close> the frame is not filtered: every
  date the library returns for a column, historical dates included, has a row.
\<close>
theorem only_future_rows:
  assumes describe: "get_columns_and_types W db_name table_name st = Inr ((columns, types), st1)"
    and select: "respond W (queries st1) (query_select db_name table_name columns) = Inr result_set"
    and nonempty: "result_set \<noteq> []"
    and widths: "list_all (\<lambda>r. length r = Suc (length columns)) result_set"
    and dates: "to_datetime result_set = Inr data"
    and loop: "forecast_columns W table_name interval only_future columns data
                 (max_date (map fst data)) columns []
                 (st1\<lparr>queries := queries st1 @ [query_select db_name table_name columns]\<rparr>)
               = (forecast_data, st3)"
    and contract: "\<forall>model future forecast.
                     predict W model future = Inr forecast \<longrightarrow> fst ` set forecast \<subseteq> set future"
  shows "forecast_table W db_name table_name interval only_future st =
           (case insert_forecast_data W (insert_table_name db_name table_name) columns
                   forecast_data st3 of
              Inl e \<Rightarrow> Inl e
            | Inr st4 \<Rightarrow> Inr (st4\<lparr>successful_tables := successful_tables st4 @ [table_name]\<rparr>))
         \<and> (only_future \<longrightarrow>
               (\<forall>(ds, row) \<in> set forecast_data.
                   map_of row ''date'' = Some (Date ds)
                 \<and> max_date (map fst data) < ds
                 \<and> (\<forall>d \<in> fst ` set data. d < ds)))
         \<and> (\<not> only_future \<longrightarrow>
               (\<forall>col \<in> set columns. \<forall>model future forecast.
                   fit W (series columns data col) = Inr model
                 \<longrightarrow> make_future_dataframe W model interval = Inr future
                 \<longrightarrow> predict W model future = Inr forecast
                 \<longrightarrow> fst ` set forecast \<subseteq> fst ` set forecast_data))"
proof (intro conjI impI)
  show "forecast_table W db_name table_name interval only_future st =
           (case insert_forecast_data W (insert_table_name db_name table_name) columns
                   forecast_data st3 of
              Inl e \<Rightarrow> Inl e
            | Inr st4 \<Rightarrow> Inr (st4\<lparr>successful_tables := successful_tables st4 @ [table_name]\<rparr>))"
    by (rule forecast_table_run[OF describe select nonempty widths dates loop])
next
  assume "only_future"
  then have run: "forecast_columns W table_name interval True columns data
                 (max_date (map fst data)) columns []
                 (st1\<lparr>queries := queries st1 @ [query_select db_name table_name columns]\<rparr>)
               = (forecast_data, st3)"
    using loop by simp
  have entries: "\<forall>(ds, row) \<in> set forecast_data. map_of row ''date'' = Some (Date ds)"
    using forecast_columns_date_entries[OF run] get_columns_and_types_state(9)[OF describe] .
  have contract': "\<And>model future forecast.
                     predict W model future = Inr forecast \<Longrightarrow> fst ` set forecast \<subseteq> set future"
    using contract by blast
  have later: "\<forall>ds \<in> fst ` set forecast_data. max_date (map fst data) < ds"
    by (rule forecast_columns_future_only[of W, OF run contract'])
  have "d \<le> max_date (map fst data)" if "d \<in> fst ` set data" for d
    using that max_date_ge[of d "map fst data"] by simp
  with later have "\<forall>ds \<in> fst ` set forecast_data. \<forall>d \<in> fst ` set data. d < ds"
    by fastforce
  with entries later
  show "\<forall>(ds, row) \<in> set forecast_data.
                   map_of row ''date'' = Some (Date ds)
                 \<and> max_date (map fst data) < ds
                 \<and> (\<forall>d \<in> fst ` set data. d < ds)"
    by fastforce
next
  assume unfiltered: "\<not> only_future"
  show "\<forall>col \<in> set columns. \<forall>model future forecast.
                   fit W (series columns data col) = Inr model
                 \<longrightarrow> make_future_dataframe W model interval = Inr future
                 \<longrightarrow> predict W model future = Inr forecast
                 \<longrightarrow> fst ` set forecast \<subseteq> fst ` set forecast_data"
  proof (intro ballI allI impI)
    fix col model future forecast
    assume col: "col \<in> set columns"
      and "fit W (series columns data col) = Inr model"
      and "make_future_dataframe W model interval = Inr future"
      and "predict W model future = Inr forecast"
    then have "forecast_column W interval only_future (max_date (map fst data))
                 (series columns data col) = Inr forecast"
      using unfiltered by (simp add: forecast_column_def)
    from forecast_columns_all_dates[OF loop col this]
    show "fst ` set forecast \<subseteq> fst ` set forecast_data" .
  qed
qed

text \<open>
  Claim C10. When \<open>main\<close> returns, the tables have all been processed and the last three
  log lines are the elapsed time, the counts and a rule. The counts are: the lengths of the
  successful and the skipped list added up, the length of the list of new tables, that of the
  updated tables, the length of the skipped list minus that of the failed list, and the
  length of the failed list. The failed list receives the table once for every column whose
  forecast raises.
\<close>
theorem summary_counts:
  "(main W db_name interval specific_tables only_future st = Inr st' \<longrightarrow>
      (\<exists>tables st1 st2.
          process_tables W db_name interval specific_tables only_future tables st1 = Inr st2
        \<and> successful_tables st' = successful_tables st2 \<and> new_tables st' = new_tables st2
        \<and> updated_tables st' = updated_tables st2 \<and> failed_tables st' = failed_tables st2
        \<and> skipped_tables st' = skipped_tables st2
        \<and> logs st' = logs st2 @
             [(INFO, Finished (duration W)),
              (INFO, TableInfo
                 (int (length (successful_tables st')) + int (length (skipped_tables st')))
                 (int (length (new_tables st')))
                 (int (length (updated_tables st')))
                 (int (length (skipped_tables st')) - int (length (failed_tables st')))
                 (int (length (failed_tables st')))),
              (INFO, Rule)]))
   \<and> (forecast_columns W table_name interval only_future columns data lkd cols fd st0 = (fd', st3) \<longrightarrow>
        failed_tables st3 = failed_tables st0 @
          replicate (length (filter (\<lambda>col. isl (forecast_column W interval only_future lkd
                                                     (series columns data col))) cols)) table_name)"
proof (intro conjI impI)
  assume "main W db_name interval specific_tables only_future st = Inr st'"
  then obtain st0 tables st1 st2 where
    "process_tables W db_name interval specific_tables only_future tables st1 = Inr st2"
    and "st' = summary W st2"
    by (auto simp: main_def split: sum.splits prod.splits)
  then show "\<exists>tables st1 st2.
          process_tables W db_name interval specific_tables only_future tables st1 = Inr st2
        \<and> successful_tables st' = successful_tables st2 \<and> new_tables st' = new_tables st2
        \<and> updated_tables st' = updated_tables st2 \<and> failed_tables st' = failed_tables st2
        \<and> skipped_tables st' = skipped_tables st2
        \<and> logs st' = logs st2 @
             [(INFO, Finished (duration W)),
              (INFO, TableInfo
                 (int (length (successful_tables st')) + int (length (skipped_tables st')))
                 (int (length (new_tables st')))
                 (int (length (updated_tables st')))
                 (int (length (skipped_tables st')) - int (length (failed_tables st')))
                 (int (length (failed_tables st')))),
              (INFO, Rule)]"
    by (intro exI[of _ tables] exI[of _ st1] exI[of _ st2]) (simp add: summary_def logging_def)
next
  assume "forecast_columns W table_name interval only_future columns data lkd cols fd st0 = (fd', st3)"
  from forecast_columns_state[OF this]
  show "failed_tables st3 = failed_tables st0 @
          replicate (length (filter (\<lambda>col. isl (forecast_column W interval only_future lkd
                                                     (series columns data col))) cols)) table_name"
    by simp
qed

lemma demo_contract:
  "\<forall>model future forecast.
     predict demo_world model future = Inr forecast \<longrightarrow> fst ` set forecast \<subseteq> set future"
  by (auto simp: demo_world_def split: if_splits)

lemma demo_loop_history:
  "forecast_columns demo_world ''bucket_sales'' 1 False [''a'', ''b'']
     [(1, [CFloat 10, CNull]), (2, [CFloat 20, CNull])]
     (max_date (map fst [(1, [CFloat 10, CNull]), (2, [CFloat (20::int), CNull])])) [''a'', ''b''] []
     (init_state\<lparr>queries := [''DESCRIBE TABLE db.bucket_sales''],
                  logs := [(INFO, SkipColumn ''note'' ''String'')]\<rparr>
        \<lparr>queries := queries (init_state\<lparr>queries := [''DESCRIBE TABLE db.bucket_sales''],
                                          logs := [(INFO, SkipColumn ''note'' ''String'')]\<rparr> :: int state)
                      @ [query_select ''db'' ''bucket_sales'' [''a'', ''b'']]\<rparr>)
   = ([(1, [(''date'', Date 1), (''a'', Value 10), (''a_min'', Value 9), (''a_max'', Value 11)]),
       (2, [(''date'', Date 2), (''a'', Value 20), (''a_min'', Value 19), (''a_max'', Value 21)]),
       (3, [(''date'', Date 3), (''a'', Value 30), (''a_min'', Value 29), (''a_max'', Value 31)])],
      \<lparr>queries = [''DESCRIBE TABLE db.bucket_sales'',
                  ''SELECT date, a, b FROM db.bucket_sales ORDER BY date''],
       logs = [(INFO, SkipColumn ''note'' ''String''),
               (ERROR, ForecastFailed ''b'' ''bucket_sales''
                  (ForecastingError ''Dataframe has less than 2 non-NaN rows.''))],
       fitted = [(''bucket_sales'', ''a''), (''bucket_sales'', ''b'')],
       successful_tables = [], new_tables = [], updated_tables = [],
       failed_tables = [''bucket_sales''], skipped_tables = []\<rparr>)"
  by (simp add: demo_defs)

theorem only_future_rows_witness:
  "map_of [(''date'', Date 3), (''a'', Value 30), (''a_min'', Value 29), (''a_max'', Value (31::int))]
     ''date'' = Some (Date 3) \<and> (2::int) < 3
   \<and> map_of [(''date'', Date 4), (''a'', Value 40), (''a_min'', Value 39), (''a_max'', Value (41::int))]
     ''date'' = Some (Date 4) \<and> (2::int) < 4
   \<and> fst ` set ([(1, 10, 9, 11), (2, 20, 19, 21), (3, 30, 29, 31)] :: (int \<times> int \<times> int \<times> int) list)
       \<subseteq> fst ` set
       [(1 :: int, [(''date'', Date 1), (''a'', Value 10), (''a_min'', Value 9), (''a_max'', Value (11::int))]),
        (2, [(''date'', Date 2), (''a'', Value 20), (''a_min'', Value 19), (''a_max'', Value 21)]),
        (3, [(''date'', Date 3), (''a'', Value 30), (''a_min'', Value 29), (''a_max'', Value 31)])]"
proof -
  have nonempty: "[[CDate 1, CFloat 10, CNull], [CDate 2, CFloat (20::int), CNull]] \<noteq> []"
    by simp
  have widths: "list_all (\<lambda>r. length r = Suc (length [''a'', ''b'']))
                  [[CDate 1, CFloat 10, CNull], [CDate 2, CFloat (20::int), CNull]]"
    by simp
  have future: "\<forall>(ds, row) \<in> set
       [(3, [(''date'', Date 3), (''a'', Value 30), (''a_min'', Value 29), (''a_max'', Value (31::int))]),
        (4, [(''date'', Date 4), (''a'', Value 40), (''a_min'', Value 39), (''a_max'', Value 41)])].
      map_of row ''date'' = Some (Date ds) \<and> 2 < ds"
    using only_future_rows[OF demo_describe demo_select nonempty widths demo_dates demo_loop
            demo_contract]
    by simp
  have a: "''a'' \<in> set [''a'', ''b'']" by simp
  have fit_a: "fit demo_world (series [''a'', ''b''] [(1, [CFloat 10, CNull]), (2, [CFloat 20, CNull])] ''a'')
          = Inr [1, 2]"
    and future_a: "make_future_dataframe demo_world [1, 2] 1 = Inr [1, 2, 3]"
    and predict_a: "predict demo_world [1, 2] [1, 2, 3]
          = Inr [(1, 10, 9, 11), (2, 20, 19, 21), (3, 30, 29, 31)]"
    by (simp_all add: demo_defs)
  have unfiltered: "\<not> False" by simp
  have history: "fst ` set ([(1, 10, 9, 11), (2, 20, 19, 21), (3, 30, 29, 31)] :: (int \<times> int \<times> int \<times> int) list)
       \<subseteq> fst ` set
       [(1 :: int, [(''date'', Date 1), (''a'', Value 10), (''a_min'', Value 9), (''a_max'', Value (11::int))]),
        (2, [(''date'', Date 2), (''a'', Value 20), (''a_min'', Value 19), (''a_max'', Value 21)]),
        (3, [(''date'', Date 3), (''a'', Value 30), (''a_min'', Value 29), (''a_max'', Value 31)])]"
    by (rule only_future_rows[OF demo_describe demo_select nonempty widths demo_dates
              demo_loop_history demo_contract, THEN conjunct2, THEN conjunct2, rule_format,
              OF unfiltered a fit_a future_a predict_a])
  from future history show ?thesis by simp
qed

lemma demo_main:
  "main demo_world ''db'' 2 (TablesStr ''bucket_nulls,bucket_forecast_nulls'') True init_state
     = Inr \<lparr>queries = [''DESCRIBE TABLE db.bucket_nulls'',
                        ''EXISTS TABLE db.bucket_forecast_nulls'',
                        ''DROP TABLE db.bucket_forecast_nulls'',
                        query_create ''db.bucket_forecast_nulls'' [''a'', ''b'']
                          [''Float64'', ''Nullable(Float64)''],
                        ''DESCRIBE TABLE db.bucket_nulls'',
                        ''SELECT date, a, b FROM db.bucket_nulls ORDER BY date''],
             logs = [(INFO, Connected),
                     (INFO, Starting ''db'' ''bucket_nulls''),
                     (INFO, SkipColumn ''note'' ''String''),
                     (INFO, Dropping ''bucket_forecast_nulls''),
                     (INFO, Recreated ''bucket_forecast_nulls''),
                     (INFO, SkipColumn ''note'' ''String''),
                     (ERROR, ForecastFailed ''a'' ''bucket_nulls''
                        (ForecastingError ''Dataframe has less than 2 non-NaN rows.'')),
                     (ERROR, ForecastFailed ''b'' ''bucket_nulls''
                        (ForecastingError ''Dataframe has less than 2 non-NaN rows.'')),
                     (INFO, Finished 0),
                     (INFO, TableInfo 2 0 1 (- 1) 2),
                     (INFO, Rule)],
             fitted = [(''bucket_nulls'', ''a''), (''bucket_nulls'', ''b'')],
             successful_tables = [''bucket_nulls''], new_tables = [],
             updated_tables = [''bucket_nulls''],
             failed_tables = [''bucket_nulls'', ''bucket_nulls''],
             skipped_tables = [''bucket_forecast_nulls'']\<rparr>"
  by (simp add: demo_defs)

lemma demo_loop_nulls:
  "forecast_columns demo_world ''bucket_nulls'' 2 True [''a'', ''b'']
     [(1, [CNull, CNull]), (2, [CNull, CNull])] 2 [''a'', ''b''] [] init_state
   = ([], init_state
          \<lparr>logs := [(ERROR, ForecastFailed ''a'' ''bucket_nulls''
                        (ForecastingError ''Dataframe has less than 2 non-NaN rows.'')),
                    (ERROR, ForecastFailed ''b'' ''bucket_nulls''
                        (ForecastingError ''Dataframe has less than 2 non-NaN rows.''))],
            fitted := [(''bucket_nulls'', ''a''), (''bucket_nulls'', ''b'')],
            failed_tables := [''bucket_nulls'', ''bucket_nulls'']\<rparr>)"
  by (simp add: demo_defs)

theorem summary_counts_witness:
  "(\<exists>st' before. main demo_world ''db'' 2 (TablesStr ''bucket_nulls,bucket_forecast_nulls'') True
                    init_state = Inr st'
      \<and> logs st' = before @ [(INFO, Finished 0), (INFO, TableInfo 2 0 1 (- 1) 2), (INFO, Rule)]
      \<and> failed_tables st' = [''bucket_nulls'', ''bucket_nulls''])
   \<and> failed_tables (snd (forecast_columns demo_world ''bucket_nulls'' 2 True [''a'', ''b'']
         [(1, [CNull, CNull]), (2, [CNull, CNull])] 2 [''a'', ''b''] [] init_state))
      = replicate 2 ''bucket_nulls''"
proof
  show "\<exists>st' before. main demo_world ''db'' 2 (TablesStr ''bucket_nulls,bucket_forecast_nulls'') True
                    init_state = Inr st'
      \<and> logs st' = before @ [(INFO, Finished 0), (INFO, TableInfo 2 0 1 (- 1) 2), (INFO, Rule)]
      \<and> failed_tables st' = [''bucket_nulls'', ''bucket_nulls'']"
    using summary_counts[where W=demo_world and db_name="''db''" and interval=2
          and specific_tables="TablesStr ''bucket_nulls,bucket_forecast_nulls''"
          and only_future=True and st=init_state, THEN conjunct1]
    unfolding demo_main
    by (simp add: demo_world_def)
next
  have "failed_tables (snd (forecast_columns demo_world ''bucket_nulls'' 2 True [''a'', ''b'']
         [(1, [CNull, CNull]), (2, [CNull, CNull])] 2 [''a'', ''b''] [] init_state))
      = failed_tables (init_state :: int state) @
          replicate (length (filter (\<lambda>col. isl (forecast_column demo_world 2 True 2
                      (series [''a'', ''b''] [(1, [CNull, CNull]), (2, [CNull, CNull])] col)))
                      [''a'', ''b''])) ''bucket_nulls''"
    using summary_counts[THEN conjunct2, rule_format, OF demo_loop_nulls]
    unfolding demo_loop_nulls by simp
  then show "failed_tables (snd (forecast_columns demo_world ''bucket_nulls'' 2 True [''a'', ''b'']
         [(1, [CNull, CNull]), (2, [CNull, CNull])] 2 [''a'', ''b''] [] init_state))
      = replicate 2 ''bucket_nulls''"
    by (simp add: demo_defs numeral_2_eq_2)
qed

end
